theory Spec2Isabelle
  imports Complex_Main "HOL-Library.Sublist"
begin

section \<open>Data model (types.ts)\<close>

text \<open>
  The platform identifiers of \<^verbatim>\<open>type Platform\<close>. At run time an identifier is the
  string \<open>platform_name\<close> gives.
\<close>

datatype platform = Twitter | LinkedIn | Bluesky | TikTok | Devto | Threads | Discord | GitHub

fun platform_name :: "platform \<Rightarrow> string" where
  "platform_name Twitter = ''twitter''"
| "platform_name LinkedIn = ''linkedin''"
| "platform_name Bluesky = ''bluesky''"
| "platform_name TikTok = ''tiktok''"
| "platform_name Devto = ''devto''"
| "platform_name Threads = ''threads''"
| "platform_name Discord = ''discord''"
| "platform_name GitHub = ''github''"

text \<open>
  A number of the language: \<^verbatim>\<open>NaN\<close>, an infinity, or a finite double, which is a
  rational. \<open>jsLe a b\<close> is \<^verbatim>\<open>a <= b\<close> (and \<^verbatim>\<open>b >= a\<close>) on numbers: false when either
  side is \<^verbatim>\<open>NaN\<close>.
\<close>

datatype jsnum = JsNaN | JsNegInfinity | JsPosInfinity | JsFinite rat

fun jsLe :: "jsnum \<Rightarrow> jsnum \<Rightarrow> bool" where
  "jsLe JsNaN b = False"
| "jsLe JsNegInfinity b = (b \<noteq> JsNaN)"
| "jsLe JsPosInfinity b = (b = JsPosInfinity)"
| "jsLe (JsFinite x) b =
     (case b of JsNaN \<Rightarrow> False | JsNegInfinity \<Rightarrow> False | JsPosInfinity \<Rightarrow> True
      | JsFinite y \<Rightarrow> x \<le> y)"

text \<open>
  The values a field of a stored object holds. \<open>JDate ms\<close> is a \<^verbatim>\<open>Date\<close> with time
  value \<open>ms\<close>, \<open>JTimestamp ms\<close> a store timestamp object answering \<^verbatim>\<open>toMillis()\<close>
  with \<open>ms\<close>, \<open>JStrs\<close> an array of strings (the scopes).
\<close>

datatype jsval =
    JUndefined
  | JNull
  | JBool bool
  | JNum jsnum
  | JStr string
  | JDate int
  | JTimestamp int
  | JStrs "string list"

text \<open>
  A connection (any variant of \<^verbatim>\<open>PlatformConnection\<close>) and a partial update
  (\<^verbatim>\<open>Partial<PlatformConnection>\<close>) are objects: finite maps from field names to
  values. The object spread \<^verbatim>\<open>{ ...a, ...b }\<close> is \<open>a ++ b\<close>.
\<close>

type_synonym jsobj = "string \<rightharpoonup> jsval"

definition field :: "jsobj \<Rightarrow> string \<Rightarrow> jsval" where
  "field obj k = (case obj k of None \<Rightarrow> JUndefined | Some v \<Rightarrow> v)"

fun truthy :: "jsval \<Rightarrow> bool" where
  "truthy JUndefined = False"
| "truthy JNull = False"
| "truthy (JBool b) = b"
| "truthy (JNum n) = (n \<noteq> JsNaN \<and> n \<noteq> JsFinite 0)"
| "truthy (JStr s) = (s \<noteq> [])"
| "truthy (JDate ms) = True"
| "truthy (JTimestamp ms) = True"
| "truthy (JStrs xs) = True"

text \<open>A field the types declare as \<^verbatim>\<open>string\<close>, read as the string it holds.\<close>

fun asString :: "jsval \<Rightarrow> string" where
  "asString (JStr s) = s"
| "asString v = []"

record oauth_state =
  uid :: string
  codeVerifier :: string
  state :: string
  createdAt :: int

record post_options =
  postText :: string
  mediaUrl :: "string option"
  mediaAltText :: "string option"
  projectName :: "string option"
  postData :: "jsobj option"

record post_result =
  platform :: "string option"
  success :: bool
  result :: "jsobj option"
  error :: "string option"

text \<open>
  A thrown value. Every throw of the repository is \<^verbatim>\<open>new Error(msg)\<close>; the libraries
  throw error objects that carry in addition an HTTP status, a numeric code or a response
  body. \<open>responseStatus\<close> is \<^verbatim>\<open>err.response?.status\<close>, \<open>responseErrorMessage\<close> is
  \<^verbatim>\<open>err.response?.data?.error?.message\<close>, \<open>dataError\<close> is the first non-empty of
  \<^verbatim>\<open>err.data?.error\<close>, \<^verbatim>\<open>err.data?.type\<close> and \<^verbatim>\<open>err.data?.title\<close>, and
  \<open>isApiResponseError\<close> is \<^verbatim>\<open>err instanceof ApiResponseError\<close>. An absent string is
  \<open>[]\<close>, an absent number \<open>None\<close>.
\<close>

record js_error =
  message :: string
  status :: "int option"
  responseStatus :: "int option"
  code :: "int option"
  isApiResponseError :: bool
  responseErrorMessage :: string
  dataError :: string

definition Error :: "string \<Rightarrow> js_error" where
  "Error msg = \<lparr> message = msg, status = None, responseStatus = None, code = None,
                 isApiResponseError = False, responseErrorMessage = [], dataError = [] \<rparr>"

section \<open>The in-memory store (adapters/memory.ts)\<close>

record memory_adapter =
  connections :: "string \<rightharpoonup> jsobj"
  oauthStates :: "string \<rightharpoonup> oauth_state"

definition getKey :: "string \<Rightarrow> platform \<Rightarrow> string" where
  "getKey userId p = userId @ '':'' @ platform_name p"

definition saveConnection :: "memory_adapter \<Rightarrow> string \<Rightarrow> platform \<Rightarrow> jsobj \<Rightarrow> memory_adapter" where
  "saveConnection s userId p connection =
     s\<lparr>connections := (connections s)(getKey userId p \<mapsto> connection)\<rparr>"

definition getConnection :: "memory_adapter \<Rightarrow> string \<Rightarrow> platform \<Rightarrow> jsobj option" where
  "getConnection s userId p = connections s (getKey userId p)"

definition updateConnection :: "memory_adapter \<Rightarrow> string \<Rightarrow> platform \<Rightarrow> jsobj \<Rightarrow> memory_adapter" where
  "updateConnection s userId p updates =
     (case connections s (getKey userId p) of
        None \<Rightarrow> s
      | Some existing \<Rightarrow>
          s\<lparr>connections := (connections s)(getKey userId p \<mapsto> existing ++ updates)\<rparr>)"

definition deleteConnection :: "memory_adapter \<Rightarrow> string \<Rightarrow> platform \<Rightarrow> memory_adapter" where
  "deleteConnection s userId p = s\<lparr>connections := (connections s)(getKey userId p := None)\<rparr>"

definition saveOAuthState :: "memory_adapter \<Rightarrow> string \<Rightarrow> oauth_state \<Rightarrow> memory_adapter" where
  "saveOAuthState s st data = s\<lparr>oauthStates := (oauthStates s)(st \<mapsto> data)\<rparr>"

definition getOAuthState :: "memory_adapter \<Rightarrow> string \<Rightarrow> oauth_state option" where
  "getOAuthState s st = oauthStates s st"

definition deleteOAuthState :: "memory_adapter \<Rightarrow> string \<Rightarrow> memory_adapter" where
  "deleteOAuthState s st = s\<lparr>oauthStates := (oauthStates s)(st := None)\<rparr>"

text \<open>\<^verbatim>\<open>BaseConnectionProvider.disconnect\<close> of the provider built for platform \<open>p\<close>.\<close>

definition disconnect :: "platform \<Rightarrow> memory_adapter \<Rightarrow> string \<Rightarrow> memory_adapter" where
  "disconnect p s userId = deleteConnection s userId p"

section \<open>Security primitives (utils/security.ts)\<close>

definition digit_char :: "nat \<Rightarrow> char" where
  "digit_char d = char_of (48 + d)"

fun showNat :: "nat \<Rightarrow> string" where
  "showNat n = (if n < 10 then [digit_char n] else showNat (n div 10) @ [digit_char (n mod 10)])"

declare showNat.simps [simp del]

definition showInt :: "int \<Rightarrow> string" where
  "showInt i = (if i < 0 then CHR ''-'' # showNat (nat (- i)) else showNat (nat i))"

text \<open>
  \<^verbatim>\<open>generateId\<close>: the MD5 digest, in hexadecimal, of the decimal text of the clock
  reading in milliseconds. The digest function \<open>md5\<close> is the platform's; \<open>now\<close> is what
  \<^verbatim>\<open>new Date().getTime()\<close> returns.
\<close>

definition generateId :: "(string \<Rightarrow> string) \<Rightarrow> int \<Rightarrow> string" where
  "generateId md5 now = md5 (showInt now)"

text \<open>
  What \<^verbatim>\<open>jwtDecode\<close> (package jwt-decode) does with a token: it throws, or returns the
  parsed payload, which is \<^verbatim>\<open>null\<close>, a JSON object or another JSON value.
\<close>

datatype jwt_decoded = DecodeThrows | DecodedNull | DecodedObject jsobj | DecodedOther

text \<open>
  \<^verbatim>\<open>isTokenExpired\<close>. The token is \<open>None\<close> for \<^verbatim>\<open>null\<close> and \<^verbatim>\<open>undefined\<close>. Reading
  \<^verbatim>\<open>exp\<close> of a \<^verbatim>\<open>null\<close> payload throws inside the \<^verbatim>\<open>try\<close>; of a number, string or
  boolean payload it gives \<^verbatim>\<open>undefined\<close>. \<open>nowInSeconds\<close> is the value the code gives its
  constant of that name: the double that \<^verbatim>\<open>Date.now() / 1000\<close> evaluates to, which is the
  quotient rounded to 53 significant bits and not always the exact quotient.
\<close>

definition isTokenExpired :: "(string \<Rightarrow> jwt_decoded) \<Rightarrow> rat \<Rightarrow> string option \<Rightarrow> bool" where
  "isTokenExpired jwtDecode nowInSeconds token =
     (case token of
        None \<Rightarrow> True
      | Some t \<Rightarrow>
          if t = [] then True
          else (case jwtDecode t of
                  DecodeThrows \<Rightarrow> True
                | DecodedNull \<Rightarrow> True
                | DecodedOther \<Rightarrow> True
                | DecodedObject decoded \<Rightarrow>
                    (case field decoded ''exp'' of
                       JNum e \<Rightarrow> jsLe e (JsFinite nowInSeconds)
                     | _ \<Rightarrow> True)))"

section \<open>TikTok chunk sizing (handlers/tiktok.ts, handleVideoUpload)\<close>

definition MIN_CHUNK_SIZE_BYTES :: nat where
  "MIN_CHUNK_SIZE_BYTES = 5 * 1024 * 1024"

definition MAX_CHUNK_SIZE_BYTES :: nat where
  "MAX_CHUNK_SIZE_BYTES = 64 * 1024 * 1024"

definition DEFAULT_CHUNK_SIZE_BYTES :: nat where
  "DEFAULT_CHUNK_SIZE_BYTES = 20 * 1024 * 1024"

text \<open>
  \<^verbatim>\<open>Math.ceil(a / b)\<close> for a file size \<open>a\<close> and a positive \<open>b\<close>, in integer
  arithmetic (lemma \<open>ceil_div_real\<close> below relates it to the real quotient).
\<close>

definition ceil_div :: "nat \<Rightarrow> nat \<Rightarrow> nat" where
  "ceil_div a b = (a + b - 1) div b"

text \<open>
  The first block of \<^verbatim>\<open>handleVideoUpload\<close>: the pair
  \<open>(effectiveChunkSize, totalChunks)\<close> sent to \<^verbatim>\<open>initVideoUpload\<close>.
\<close>

definition chunkPlan :: "nat \<Rightarrow> nat \<times> nat" where
  "chunkPlan fileSize =
     (if fileSize < MIN_CHUNK_SIZE_BYTES then (fileSize, 1)
      else if fileSize \<le> MAX_CHUNK_SIZE_BYTES then (fileSize, 1)
      else
        (let effectiveChunkSize = DEFAULT_CHUNK_SIZE_BYTES;
             totalChunks = ceil_div fileSize effectiveChunkSize
         in if totalChunks > 1000 then
              (let e1 = ceil_div fileSize 1000;
                   e2 = max e1 MIN_CHUNK_SIZE_BYTES;
                   e3 = min e2 MAX_CHUNK_SIZE_BYTES
               in (e3, ceil_div fileSize e3))
            else (effectiveChunkSize, totalChunks)))"

section \<open>The outside world\<close>

text \<open>
  Network calls and library calls are not part of the repository. Each one is a parameter
  of the model that says how the call settles: \<open>Inl e\<close> when it throws (or its promise
  rejects with) \<open>e\<close>, \<open>Inr v\<close> when it returns \<open>v\<close>. Every single call settles; a loop
  over calls need not end. JSON bodies are read at the type the code casts them to; an
  identifier that a handler passes on to its result without looking at it is a value of
  any kind, a \<open>jsval\<close>. The clock is one reading \<open>now\<close> (milliseconds) per operation,
  and one reading \<open>nowInSeconds\<close> for \<open>isTokenExpired\<close>.
\<close>

record client_config =
  clientId :: string
  clientSecret :: string

text \<open>
  \<^verbatim>\<open>!this.config.clientId || !this.config.clientSecret\<close>. TikTok's configuration names
  its first member \<^verbatim>\<open>clientKey\<close>; it is \<open>clientId\<close> here.
\<close>

definition notConfigured :: "client_config \<Rightarrow> bool" where
  "notConfigured config = (clientId config = [] \<or> clientSecret config = [])"

record token_response =
  access_token :: string
  refresh_token :: "string option"
  id_token :: "string option"
  expires_in :: int
  scope :: string

record 'j http_response =
  ok :: bool
  httpStatus :: int
  statusText :: string
  bodyText :: "js_error + string"
  bodyJson :: "js_error + 'j"
  restliId :: "string option"

text \<open>
  The calls a handler makes, in the order it makes them: a request to refresh the
  credential (the provider's \<open>refreshToken\<close>, or the Bluesky agent's own
  \<^verbatim>\<open>refreshSession\<close>), a download or upload of media, a call of the publish protocol.
\<close>

datatype call = CallRefreshToken | CallMedia | CallPublish

record sys =
  db :: memory_adapter
  calls :: "call list"

definition logCall :: "call \<Rightarrow> sys \<Rightarrow> sys" where
  "logCall c s = s\<lparr>calls := calls s @ [c]\<rparr>"

definition writeBack :: "sys \<Rightarrow> string \<Rightarrow> platform \<Rightarrow> jsobj \<Rightarrow> sys" where
  "writeBack s userId p updates = s\<lparr>db := updateConnection (db s) userId p updates\<rparr>"

text \<open>The two partial updates every handler writes.\<close>

definition markInvalid :: jsobj where
  "markInvalid = [''isValid'' \<mapsto> JBool False, ''needsReconnection'' \<mapsto> JBool True]"

definition markValid :: "int \<Rightarrow> jsobj" where
  "markValid now = [''isValid'' \<mapsto> JBool True, ''needsReconnection'' \<mapsto> JBool False,
                    ''lastValidated'' \<mapsto> JDate now]"

definition orElse :: "string \<Rightarrow> string \<Rightarrow> string" where
  "orElse a b = (if a \<noteq> [] then a else b)"

definition failure :: "platform \<Rightarrow> string \<Rightarrow> post_result" where
  "failure p msg = \<lparr> platform = Some (platform_name p), success = False, result = None,
                      error = Some msg \<rparr>"

definition succeeded :: "platform \<Rightarrow> jsobj \<Rightarrow> post_result" where
  "succeeded p obj = \<lparr> platform = Some (platform_name p), success = True, result = Some obj,
                        error = None \<rparr>"

text \<open>The error of reading a member of \<^verbatim>\<open>undefined\<close>.\<close>

definition cannotRead :: "string \<Rightarrow> js_error" where
  "cannotRead member = Error (''Cannot read properties of undefined (reading '' @ member @ '')'')"

section \<open>Connection providers (connections/*.ts)\<close>

subsection \<open>initiateAuth\<close>

text \<open>
  Twitter: \<open>authLink\<close> is \<^verbatim>\<open>client.generateOAuth2AuthLink\<close>, which returns the URL and
  the PKCE verifier for a redirect URI and a state.
\<close>

definition twitter_initiateAuth ::
  "client_config \<Rightarrow> (string \<Rightarrow> string) \<Rightarrow> (string \<Rightarrow> string \<Rightarrow> string \<times> string) \<Rightarrow> int \<Rightarrow>
   string \<Rightarrow> string \<Rightarrow> memory_adapter \<Rightarrow> (js_error + string \<times> string) \<times> memory_adapter" where
  "twitter_initiateAuth config md5 authLink now userId redirectUri s =
     (if notConfigured config then (Inl (Error ''Twitter Client ID/Secret not configured''), s)
      else
        (let st = generateId md5 now;
             (url, verifier) = authLink redirectUri st;
             stateData = \<lparr> uid = userId, codeVerifier = verifier, state = st, createdAt = now \<rparr>
         in (Inr (url, st), saveOAuthState s st stateData)))"

text \<open>LinkedIn: \<open>authUrl\<close> is the URL built from the redirect URI and the state.\<close>

definition linkedin_initiateAuth ::
  "client_config \<Rightarrow> (string \<Rightarrow> string) \<Rightarrow> (string \<Rightarrow> string \<Rightarrow> string) \<Rightarrow> int \<Rightarrow>
   string \<Rightarrow> string \<Rightarrow> memory_adapter \<Rightarrow> (js_error + string \<times> string) \<times> memory_adapter" where
  "linkedin_initiateAuth config md5 authUrl now userId redirectUri s =
     (if notConfigured config then (Inl (Error ''LinkedIn Client ID/Secret not configured''), s)
      else
        (let st = generateId md5 now;
             stateData = \<lparr> uid = userId, codeVerifier = [], state = st, createdAt = now \<rparr>
         in (Inr (authUrl redirectUri st, st), saveOAuthState s st stateData)))"

subsection \<open>handleCallback\<close>

text \<open>
  What the network answers during one callback: the token exchange, and the profile
  request (\<open>None\<close> when the profile comes back empty).
\<close>

record callback_net =
  exchange :: "js_error + token_response"
  profile :: "js_error + (string \<times> string) option"

fun splitOn :: "char \<Rightarrow> string \<Rightarrow> string list" where
  "splitOn c [] = [[]]"
| "splitOn c (x # xs) =
     (if x = c then [] # splitOn c xs
      else (case splitOn c xs of [] \<Rightarrow> [[x]] | w # ws \<Rightarrow> (x # w) # ws))"

definition orUndefined :: "string option \<Rightarrow> jsval" where
  "orUndefined x = (case x of None \<Rightarrow> JUndefined | Some v \<Rightarrow> JStr v)"

definition twitter_handleCallback ::
  "client_config \<Rightarrow> callback_net \<Rightarrow> int \<Rightarrow> string \<Rightarrow> string \<Rightarrow> string \<Rightarrow> memory_adapter \<Rightarrow>
   (js_error + jsobj) \<times> memory_adapter" where
  "twitter_handleCallback config net now authCode st redirectUri s =
     (if notConfigured config then (Inl (Error ''Twitter Client ID/Secret not configured''), s)
      else (case getOAuthState s st of
        None \<Rightarrow> (Inl (Error ''Invalid or expired state parameter''), s)
      | Some storedState \<Rightarrow>
          (let s1 = deleteOAuthState s st in
           case exchange net of
             Inl e \<Rightarrow> (Inl e, s1)
           | Inr tok \<Rightarrow>
               (case profile net of
                  Inl e \<Rightarrow> (Inl e, s1)
                | Inr None \<Rightarrow> (Inl (Error ''Failed to fetch user details from Twitter''), s1)
                | Inr (Some (userIdent, username)) \<Rightarrow>
                    (let connection =
                       [''uid'' \<mapsto> JStr (uid storedState),
                        ''twitterUserId'' \<mapsto> JStr userIdent,
                        ''screenName'' \<mapsto> JStr username,
                        ''platform'' \<mapsto> JStr ''twitter'',
                        ''authVersion'' \<mapsto> JStr ''oauth2'',
                        ''accessToken'' \<mapsto> JStr (access_token tok),
                        ''refreshToken'' \<mapsto> orUndefined (refresh_token tok),
                        ''expiresAt'' \<mapsto> JDate (now + expires_in tok * 1000),
                        ''scopes'' \<mapsto> JStrs (splitOn CHR '' '' (scope tok)),
                        ''lastValidated'' \<mapsto> JDate now,
                        ''isValid'' \<mapsto> JBool True,
                        ''needsReconnection'' \<mapsto> JBool False]
                     in (Inr connection, saveConnection s1 (uid storedState) Twitter connection))))))"

definition linkedin_handleCallback ::
  "client_config \<Rightarrow> callback_net \<Rightarrow> int \<Rightarrow> string \<Rightarrow> string \<Rightarrow> string \<Rightarrow> memory_adapter \<Rightarrow>
   (js_error + jsobj) \<times> memory_adapter" where
  "linkedin_handleCallback config net now authCode st redirectUri s =
     (if notConfigured config then (Inl (Error ''LinkedIn Client ID/Secret not configured''), s)
      else (case getOAuthState s st of
        None \<Rightarrow> (Inl (Error ''Invalid or expired state parameter''), s)
      | Some storedState \<Rightarrow>
          (let s1 = deleteOAuthState s st in
           case exchange net of
             Inl e \<Rightarrow> (Inl e, s1)
           | Inr tok \<Rightarrow>
               (case profile net of
                  Inl e \<Rightarrow> (Inl e, s1)
                | Inr prof \<Rightarrow>
                    (let connection =
                       [''uid'' \<mapsto> JStr (uid storedState),
                        ''linkedInUserId'' \<mapsto> orUndefined (map_option fst prof),
                        ''platform'' \<mapsto> JStr ''linkedin'',
                        ''authVersion'' \<mapsto> JStr ''oauth2'',
                        ''accessToken'' \<mapsto> JStr (access_token tok),
                        ''refreshToken'' \<mapsto>
                           (case refresh_token tok of
                              None \<Rightarrow> JNull
                            | Some r \<Rightarrow> if r \<noteq> [] then JStr r else JNull),
                        ''idToken'' \<mapsto> orUndefined (id_token tok),
                        ''expiresAt'' \<mapsto> JDate (now + expires_in tok * 1000),
                        ''lastValidated'' \<mapsto> JDate now,
                        ''isValid'' \<mapsto> JBool True,
                        ''needsReconnection'' \<mapsto> JBool False]
                     in (Inr connection, saveConnection s1 (uid storedState) LinkedIn connection))))))"

definition tiktok_handleCallback ::
  "client_config \<Rightarrow> callback_net \<Rightarrow> int \<Rightarrow> string \<Rightarrow> string \<Rightarrow> string \<Rightarrow> memory_adapter \<Rightarrow>
   (js_error + jsobj) \<times> memory_adapter" where
  "tiktok_handleCallback config net now authCode st redirectUri s =
     (if notConfigured config then (Inl (Error ''TikTok Client Key/Secret not configured''), s)
      else (case getOAuthState s st of
        None \<Rightarrow> (Inl (Error ''Invalid or expired state parameter''), s)
      | Some storedState \<Rightarrow>
          (let s1 = deleteOAuthState s st in
           case exchange net of
             Inl e \<Rightarrow> (Inl e, s1)
           | Inr tok \<Rightarrow>
               (case profile net of
                  Inl e \<Rightarrow> (Inl e, s1)
                | Inr None \<Rightarrow>
                    (Inl (cannotRead ''open_id''), s1)
                | Inr (Some (openId, displayName)) \<Rightarrow>
                    (let connection =
                       [''uid'' \<mapsto> JStr (uid storedState),
                        ''tiktokUserId'' \<mapsto> JStr openId,
                        ''displayName'' \<mapsto> JStr displayName,
                        ''platform'' \<mapsto> JStr ''tiktok'',
                        ''authVersion'' \<mapsto> JStr ''oauth2'',
                        ''accessToken'' \<mapsto> JStr (access_token tok),
                        ''refreshToken'' \<mapsto> orUndefined (refresh_token tok),
                        ''expiresAt'' \<mapsto> JDate (now + expires_in tok * 1000),
                        ''scopes'' \<mapsto> JStrs (splitOn CHR '','' (scope tok)),
                        ''lastValidated'' \<mapsto> JDate now,
                        ''isValid'' \<mapsto> JBool True,
                        ''needsReconnection'' \<mapsto> JBool False]
                     in (Inr connection, saveConnection s1 (uid storedState) TikTok connection))))))"

text \<open>
  Threads exchanges the code with \<^verbatim>\<open>fetch\<close> and checks \<^verbatim>\<open>response.ok\<close> itself. The
  token body is \<open>(access_token, expires_in)\<close>, the user body is the user id.
\<close>

record threads_net =
  tokenResponse :: "js_error + (string \<times> int option) http_response"
  userResponse :: "js_error + string http_response"

definition threads_handleCallback ::
  "client_config \<Rightarrow> threads_net \<Rightarrow> int \<Rightarrow> string \<Rightarrow> string \<Rightarrow> string \<Rightarrow> memory_adapter \<Rightarrow>
   (js_error + jsobj) \<times> memory_adapter" where
  "threads_handleCallback config net now authCode st redirectUri s =
     (if notConfigured config then (Inl (Error ''Threads Client ID/Secret not configured''), s)
      else (case getOAuthState s st of
        None \<Rightarrow> (Inl (Error ''Invalid or expired state parameter''), s)
      | Some storedState \<Rightarrow>
          (let s1 = deleteOAuthState s st in
           case tokenResponse net of
             Inl e \<Rightarrow> (Inl e, s1)
           | Inr tr \<Rightarrow>
               if \<not> ok tr then
                 (case bodyText tr of
                    Inl e \<Rightarrow> (Inl e, s1)
                  | Inr errorText \<Rightarrow>
                      (Inl (Error (''Failed to exchange code for token: '' @ showInt (httpStatus tr)
                                   @ '' - '' @ errorText)), s1))
               else (case bodyJson tr of
                  Inl e \<Rightarrow> (Inl e, s1)
                | Inr (accessTok, expiresIn) \<Rightarrow>
                    (case userResponse net of
                       Inl e \<Rightarrow> (Inl e, s1)
                     | Inr ur \<Rightarrow>
                         if \<not> ok ur then (Inl (Error ''Failed to fetch Threads user info''), s1)
                         else (case bodyJson ur of
                            Inl e \<Rightarrow> (Inl e, s1)
                          | Inr threadsUserId \<Rightarrow>
                              (let expiresAt =
                                 (case expiresIn of
                                    None \<Rightarrow> JUndefined
                                  | Some n \<Rightarrow> if n \<noteq> 0 then JDate (now + n * 1000) else JUndefined);
                                   connection =
                                 [''uid'' \<mapsto> JStr (uid storedState),
                                  ''threadsUserId'' \<mapsto> JStr threadsUserId,
                                  ''platform'' \<mapsto> JStr ''threads'',
                                  ''accessToken'' \<mapsto> JStr accessTok,
                                  ''expiresAt'' \<mapsto> expiresAt,
                                  ''isValid'' \<mapsto> JBool True,
                                  ''needsReconnection'' \<mapsto> JBool False,
                                  ''lastValidated'' \<mapsto> JDate now]
                               in (Inr connection,
                                   saveConnection s1 (uid storedState) Threads connection))))))))"

subsection \<open>refreshToken\<close>

text \<open>
  The object \<^verbatim>\<open>updated\<close> of the Twitter and LinkedIn providers; TikTok's adds the
  scopes. \<^verbatim>\<open>newRefreshToken ?? connection.refreshToken\<close> keeps the old token when the
  response has none.
\<close>

definition refreshed :: "int \<Rightarrow> jsobj \<Rightarrow> token_response \<Rightarrow> jsobj" where
  "refreshed now connection tok =
     connection ++
       [''accessToken'' \<mapsto> JStr (access_token tok),
        ''refreshToken'' \<mapsto>
           (case refresh_token tok of
              None \<Rightarrow> field connection ''refreshToken''
            | Some r \<Rightarrow> JStr r),
        ''expiresAt'' \<mapsto> JDate (now + expires_in tok * 1000),
        ''lastValidated'' \<mapsto> JDate now,
        ''isValid'' \<mapsto> JBool True,
        ''needsReconnection'' \<mapsto> JBool False]"

text \<open>
  Every \<open>refreshToken\<close> below logs \<open>CallRefreshToken\<close> when it is entered, so that the
  call log of a handler shows where the provider was asked to refresh.
\<close>

definition twitter_refreshToken ::
  "client_config \<Rightarrow> (js_error + token_response) \<Rightarrow> int \<Rightarrow> jsobj \<Rightarrow> sys \<Rightarrow> (js_error + jsobj) \<times> sys" where
  "twitter_refreshToken config net now connection s0 =
     (let s = logCall CallRefreshToken s0 in
      if notConfigured config then (Inl (Error ''Twitter Client ID/Secret not configured''), s)
      else if \<not> truthy (field connection ''refreshToken'')
        then (Inl (Error ''Cannot refresh: Missing Twitter refresh token''), s)
      else (case net of
              Inl e \<Rightarrow> (Inl e, s)
            | Inr tok \<Rightarrow>
                (let updated = refreshed now connection tok
                 in (Inr updated,
                     writeBack s (asString (field connection ''uid'')) Twitter updated))))"

definition linkedin_refreshToken ::
  "client_config \<Rightarrow> (js_error + token_response) \<Rightarrow> int \<Rightarrow> jsobj \<Rightarrow> sys \<Rightarrow> (js_error + jsobj) \<times> sys" where
  "linkedin_refreshToken config net now connection s0 =
     (let s = logCall CallRefreshToken s0 in
      if notConfigured config then (Inl (Error ''LinkedIn Client ID/Secret not configured''), s)
      else if \<not> truthy (field connection ''refreshToken'')
        then (Inl (Error ''Cannot refresh: Missing LinkedIn refresh token''), s)
      else (case net of
              Inl e \<Rightarrow> (Inl e, s)
            | Inr tok \<Rightarrow>
                (let updated = refreshed now connection tok
                 in (Inr updated,
                     writeBack s (asString (field connection ''uid'')) LinkedIn updated))))"

definition tiktok_refreshToken ::
  "client_config \<Rightarrow> (js_error + token_response) \<Rightarrow> int \<Rightarrow> jsobj \<Rightarrow> sys \<Rightarrow> (js_error + jsobj) \<times> sys" where
  "tiktok_refreshToken config net now connection s0 =
     (let s = logCall CallRefreshToken s0 in
      if notConfigured config then (Inl (Error ''TikTok Client Key/Secret not configured''), s)
      else if \<not> truthy (field connection ''refreshToken'')
        then (Inl (Error ''Cannot refresh: Missing TikTok refresh token''), s)
      else (case net of
              Inl e \<Rightarrow> (Inl e, s)
            | Inr tok \<Rightarrow>
                (let updated = refreshed now connection tok
                               ++ [''scopes'' \<mapsto> JStrs (splitOn CHR '','' (scope tok))]
                 in (Inr updated,
                     writeBack s (asString (field connection ''uid'')) TikTok updated))))"

text \<open>
  Bluesky refreshes with \<^verbatim>\<open>fetch\<close>. The body of a successful response is
  \<open>(accessJwt, refreshJwt, handle, did)\<close>; \<open>errorCode\<close> is the \<^verbatim>\<open>error\<close> member of a
  failed response's text parsed as JSON (\<open>[]\<close> when there is none).
\<close>

definition bluesky_refreshToken ::
  "(js_error + (string \<times> string \<times> string \<times> string) http_response) \<Rightarrow> string \<Rightarrow> int \<Rightarrow> jsobj \<Rightarrow>
   sys \<Rightarrow> (js_error + jsobj) \<times> sys" where
  "bluesky_refreshToken net errorCode now connection s0 =
     (let s = logCall CallRefreshToken s0 in
      if \<not> truthy (field connection ''refreshJwt'')
        then (Inl (Error ''Cannot refresh: Missing Bluesky refresh token''), s)
      else (case net of
              Inl e \<Rightarrow> (Inl e, s)
            | Inr response \<Rightarrow>
                if \<not> ok response then
                  (case bodyText response of
                     Inl e \<Rightarrow> (Inl e, s)
                   | Inr errorText \<Rightarrow>
                       (Inl (Error (''Failed to refresh Bluesky session: ''
                                    @ showInt (httpStatus response) @ '' - '' @ errorText)),
                        if errorCode = ''ExpiredToken'' \<or> errorCode = ''InvalidToken''
                        then writeBack s (asString (field connection ''uid'')) Bluesky markInvalid
                        else s))
                else (case bodyJson response of
                        Inl e \<Rightarrow> (Inl e, s)
                      | Inr (accessJwt, refreshJwt, handle, did) \<Rightarrow>
                          (let updated = connection ++
                                 [''accessJwt'' \<mapsto> JStr accessJwt,
                                  ''refreshJwt'' \<mapsto> JStr refreshJwt,
                                  ''handle'' \<mapsto> JStr handle,
                                  ''did'' \<mapsto> JStr did,
                                  ''lastValidated'' \<mapsto> JDate now,
                                  ''isValid'' \<mapsto> JBool True,
                                  ''needsReconnection'' \<mapsto> JBool False]
                           in (Inr updated,
                               writeBack s (asString (field connection ''uid'')) Bluesky updated)))))"

section \<open>Error classification and media helpers (utils)\<close>

definition lowerChar :: "char \<Rightarrow> char" where
  "lowerChar c = (if 65 \<le> (of_char c :: nat) \<and> (of_char c :: nat) \<le> 90
                  then char_of ((of_char c :: nat) + 32) else c)"

definition toLowerCase :: "string \<Rightarrow> string" where
  "toLowerCase s = map lowerChar s"

fun strIncludes :: "string \<Rightarrow> string \<Rightarrow> bool" where
  "strIncludes [] pat = (pat = [])"
| "strIncludes (x # xs) pat = (prefix pat (x # xs) \<or> strIncludes xs pat)"

text \<open>\<^verbatim>\<open>err.status || err?.response?.status || err.code\<close>.\<close>

definition errStatus :: "js_error \<Rightarrow> int option" where
  "errStatus err =
     (if status err \<noteq> None \<and> status err \<noteq> Some 0 then status err
      else if responseStatus err \<noteq> None \<and> responseStatus err \<noteq> Some 0 then responseStatus err
      else code err)"

definition isAuthError :: "platform \<Rightarrow> js_error \<Rightarrow> bool" where
  "isAuthError p err =
     (let msg = toLowerCase (message err); st = errStatus err in
      if st = Some 401 \<or> st = Some 403 then True
      else if strIncludes msg ''authentication'' \<or> strIncludes msg ''authenticate'' then True
      else if strIncludes msg ''invalid_token'' \<or> strIncludes msg ''invalid_grant'' then True
      else (case p of
              Twitter \<Rightarrow>
                (let twitterDataError = toLowerCase (dataError err) in
                 strIncludes twitterDataError ''invalid_token''
                 \<or> strIncludes twitterDataError ''invalid request''
                 \<or> strIncludes twitterDataError ''authenticity token required'')
            | Bluesky \<Rightarrow>
                (st = Some 400 \<and> strIncludes msg ''invalid handle or password'')
                \<or> strIncludes msg ''could not resolve handle''
            | LinkedIn \<Rightarrow> strIncludes msg ''unauthorized'' \<or> strIncludes msg ''invalid_token''
            | _ \<Rightarrow> False))"

definition hasExtension :: "string list \<Rightarrow> string \<Rightarrow> bool" where
  "hasExtension exts urlOrPath =
     list_ex (\<lambda>ext. suffix (CHR ''.'' # ext) (toLowerCase urlOrPath)) exts"

definition isVideoFile :: "string \<Rightarrow> bool" where
  "isVideoFile urlOrPath =
     hasExtension [''mp4'', ''mov'', ''avi'', ''wmv'', ''flv'', ''webm'', ''mkv'', ''m4v''] urlOrPath"

definition isImageFile :: "string \<Rightarrow> bool" where
  "isImageFile urlOrPath =
     hasExtension [''jpeg'', ''jpg'', ''png'', ''gif'', ''webp'', ''bmp'', ''svg''] urlOrPath"

text \<open>\<^verbatim>\<open>if (options.mediaUrl)\<close>: the URL when it is present and not empty.\<close>

definition givenUrl :: "post_options \<Rightarrow> string option" where
  "givenUrl options =
     (case mediaUrl options of None \<Rightarrow> None | Some u \<Rightarrow> if u = [] then None else Some u)"

section \<open>Platform handlers (handlers/*.ts)\<close>

text \<open>
  A handler is \<^verbatim>\<open>sendPost(userId, connection, options, database)\<close>. When its promise
  settles, it has thrown or returned a \<^verbatim>\<open>PostResult\<close>, and left the store and the call
  log changed: an \<open>outcome\<close>. \<open>None\<close> is a promise that never settles. Seven of the
  handlers are straight-line code over calls that settle, and are written as functions to
  an outcome; \<open>settling\<close> makes a handler of one. A stage of a handler throws, returns a
  result early, or continues with a value.
\<close>

type_synonym outcome = "(js_error + post_result) \<times> sys"

type_synonym handler = "string \<Rightarrow> jsobj \<Rightarrow> post_options \<Rightarrow> sys \<Rightarrow> outcome option"

type_synonym settling_handler = "string \<Rightarrow> jsobj \<Rightarrow> post_options \<Rightarrow> sys \<Rightarrow> outcome"

definition settling :: "settling_handler \<Rightarrow> handler" where
  "settling h userId connection options s = Some (h userId connection options s)"

datatype 'a step = Throw js_error | Return post_result | Continue 'a

subsection \<open>GitHub\<close>

definition github_sendPost :: settling_handler where
  "github_sendPost userId connection options s =
     (if \<not> truthy (field connection ''token'') then (Inl (Error ''Missing GitHub token''), s)
      else (Inr (failure GitHub
        ''GitHub posting is not implemented. GitHub is primarily used for repository management, not social posting.''),
            s))"

subsection \<open>Discord\<close>

definition discord_catch :: "string \<Rightarrow> js_error \<Rightarrow> sys \<Rightarrow> post_result \<times> sys" where
  "discord_catch userId e s =
     (failure Discord (orElse (message e) ''Unknown Discord error''),
      writeBack s userId Discord markInvalid)"

definition discord_publish ::
  "(js_error + unit http_response) \<Rightarrow> int \<Rightarrow> string \<Rightarrow> sys \<Rightarrow> post_result \<times> sys" where
  "discord_publish net now userId s0 =
     (let s = logCall CallPublish s0 in
      case net of
        Inl e \<Rightarrow> discord_catch userId e s
      | Inr response \<Rightarrow>
          if \<not> ok response then
            (case bodyText response of
               Inl e \<Rightarrow> discord_catch userId e s
             | Inr errorBody \<Rightarrow>
                 (failure Discord (''Discord webhook error: '' @ showInt (httpStatus response)
                                   @ '' '' @ statusText response),
                  writeBack s userId Discord markInvalid))
          else (succeeded Discord Map.empty, writeBack s userId Discord (markValid now)))"

definition discord_sendPost ::
  "(js_error + unit http_response) \<Rightarrow> int \<Rightarrow> settling_handler" where
  "discord_sendPost net now userId connection options s =
     (if \<not> truthy (field connection ''webhookUrl'')
        then (Inl (Error ''Discord webhook URL is missing''), s)
      else (let (r, s') = discord_publish net now userId s in (Inr r, s')))"

subsection \<open>Dev.to\<close>

text \<open>
  The article body \<^verbatim>\<open>{ id, url, title }\<close>. \<open>article_id\<close> is the string that
  \<^verbatim>\<open>resultData.id.toString()\<close> returns, \<open>None\<close> when the body or its \<^verbatim>\<open>id\<close> is
  \<^verbatim>\<open>undefined\<close> or \<^verbatim>\<open>null\<close>, so that the call throws.
\<close>

record devto_article =
  article_id :: "string option"
  article_url :: jsval
  article_title :: jsval

definition devto_isAuthError :: "int \<Rightarrow> bool" where
  "devto_isAuthError st = (st = 401 \<or> st = 403)"

definition devto_catch :: "string \<Rightarrow> js_error \<Rightarrow> sys \<Rightarrow> post_result \<times> sys" where
  "devto_catch userId e s =
     (failure Devto (orElse (message e) ''Unknown Dev.to API error''),
      writeBack s userId Devto markInvalid)"

definition devto_publish ::
  "(js_error + devto_article http_response) \<Rightarrow> int \<Rightarrow> string \<Rightarrow> sys \<Rightarrow> post_result \<times> sys" where
  "devto_publish net now userId s0 =
     (let s = logCall CallPublish s0 in
      case net of
        Inl e \<Rightarrow> devto_catch userId e s
      | Inr response \<Rightarrow>
          if \<not> ok response then
            (case bodyText response of
               Inl e \<Rightarrow> devto_catch userId e s
             | Inr errorBody \<Rightarrow>
                 (failure Devto (''Dev.to API Error: '' @ showInt (httpStatus response) @ '' - ''
                                 @ statusText response @ '' - '' @ errorBody),
                  if devto_isAuthError (httpStatus response)
                  then writeBack s userId Devto markInvalid else s))
          else
            (case bodyJson response of
               Inl e \<Rightarrow> devto_catch userId e s
             | Inr resultData \<Rightarrow>
                 (let s1 = writeBack s userId Devto (markValid now) in
                  case article_id resultData of
                    None \<Rightarrow>
                      devto_catch userId (cannotRead ''toString'') s1
                  | Some ident \<Rightarrow>
                      (succeeded Devto
                         [''id'' \<mapsto> JStr ident,
                          ''url'' \<mapsto> article_url resultData,
                          ''title'' \<mapsto> article_title resultData],
                       s1))))"

definition devto_sendPost ::
  "(js_error + devto_article http_response) \<Rightarrow> int \<Rightarrow> settling_handler" where
  "devto_sendPost net now userId connection options s =
     (if \<not> truthy (field connection ''apiKey'') then (Inl (Error ''Missing Dev.to API key''), s)
      else (let (r, s') = devto_publish net now userId s in (Inr r, s')))"

subsection \<open>Threads\<close>

text \<open>
  The two responses of the container protocol; the body of each is its \<^verbatim>\<open>id\<close>
  member, \<open>JUndefined\<close> when the document has none.
\<close>

record threads_world =
  th_container :: "js_error + jsval http_response"
  th_publish :: "js_error + jsval http_response"

definition threads_catch :: "string \<Rightarrow> js_error \<Rightarrow> sys \<Rightarrow> post_result \<times> sys" where
  "threads_catch userId e s =
     (failure Threads (orElse (message e) ''Unknown Threads error''),
      writeBack s userId Threads markInvalid)"

definition threads_apiError :: "string \<Rightarrow> 'j http_response \<Rightarrow> string \<Rightarrow> string" where
  "threads_apiError stage response errorBody =
     ''Threads API Error ('' @ stage @ ''): '' @ showInt (httpStatus response) @ '' - ''
     @ statusText response @ '' - '' @ errorBody"

definition threads_publish :: "threads_world \<Rightarrow> int \<Rightarrow> string \<Rightarrow> sys \<Rightarrow> post_result \<times> sys" where
  "threads_publish w now userId s0 =
     (let s = logCall CallPublish s0 in
      case th_container w of
        Inl e \<Rightarrow> threads_catch userId e s
      | Inr createContainerResponse \<Rightarrow>
          if \<not> ok createContainerResponse then
            (case bodyText createContainerResponse of
               Inl e \<Rightarrow> threads_catch userId e s
             | Inr errorBody \<Rightarrow>
                 (failure Threads
                    (threads_apiError ''create container'' createContainerResponse errorBody),
                  writeBack s userId Threads markInvalid))
          else
            (case bodyJson createContainerResponse of
               Inl e \<Rightarrow> threads_catch userId e s
             | Inr mediaContainerId \<Rightarrow>
                 (let s1 = logCall CallPublish s in
                  case th_publish w of
                    Inl e \<Rightarrow> threads_catch userId e s1
                  | Inr publishResponse \<Rightarrow>
                      if \<not> ok publishResponse then
                        (case bodyText publishResponse of
                           Inl e \<Rightarrow> threads_catch userId e s1
                         | Inr errorBody \<Rightarrow>
                             (failure Threads
                                (threads_apiError ''publish'' publishResponse errorBody),
                              writeBack s1 userId Threads markInvalid))
                      else
                        (case bodyJson publishResponse of
                           Inl e \<Rightarrow> threads_catch userId e s1
                         | Inr threadId \<Rightarrow>
                             (succeeded Threads [''id'' \<mapsto> threadId],
                              writeBack s1 userId Threads (markValid now))))))"

definition threads_sendPost :: "threads_world \<Rightarrow> int \<Rightarrow> settling_handler" where
  "threads_sendPost w now userId connection options s =
     (if \<not> truthy (field connection ''accessToken'')
        then (Inl (Error ''Missing Threads accessToken''), s)
      else if \<not> truthy (field connection ''threadsUserId'')
        then (Inl (Error ''Missing Threads userId. Ensure this is stored upon user connection.''), s)
      else (let (r, s') = threads_publish w now userId s in (Inr r, s')))"

subsection \<open>LinkedIn\<close>

record linkedin_world =
  li_refresh :: "js_error + token_response"
  li_post :: "js_error + unit http_response"

text \<open>
  The proactive check of the LinkedIn and TikTok handlers: \<open>isTokenExpired\<close> on the
  access token, then the provider's \<open>refreshToken\<close>.
\<close>

definition linkedin_refresh ::
  "client_config \<Rightarrow> (string \<Rightarrow> jwt_decoded) \<Rightarrow> linkedin_world \<Rightarrow> int \<Rightarrow> rat \<Rightarrow> string \<Rightarrow>
   jsobj \<Rightarrow> sys \<Rightarrow> jsobj step \<times> sys" where
  "linkedin_refresh config jwtDecode w now nowInSeconds userId connection s =
     (if isTokenExpired jwtDecode nowInSeconds (Some (asString (field connection ''accessToken'')))
      then
        (case linkedin_refreshToken config (li_refresh w) now connection s of
           (Inl refreshError, s1) \<Rightarrow>
             (Throw (Error (''LinkedIn token refresh failed: '' @ message refreshError)),
              writeBack s1 userId LinkedIn markInvalid)
         | (Inr linkedinConn, s1) \<Rightarrow> (Continue linkedinConn, s1))
      else (Continue connection, s))"

text \<open>The media block swallows its errors: it only leaves calls in the log.\<close>

definition linkedin_media :: "post_options \<Rightarrow> sys \<Rightarrow> sys" where
  "linkedin_media options s =
     (case givenUrl options of None \<Rightarrow> s | Some url \<Rightarrow> logCall CallMedia s)"

definition linkedin_catch :: "string \<Rightarrow> js_error \<Rightarrow> sys \<Rightarrow> post_result \<times> sys" where
  "linkedin_catch userId e s =
     (failure LinkedIn (orElse (message e) ''Unknown LinkedIn error''),
      writeBack s userId LinkedIn markInvalid)"

text \<open>\<^verbatim>\<open>restLiId || undefined\<close>.\<close>

definition restliIdOrUndefined :: "string option \<Rightarrow> jsval" where
  "restliIdOrUndefined h =
     (case h of None \<Rightarrow> JUndefined | Some i \<Rightarrow> if i \<noteq> [] then JStr i else JUndefined)"

definition linkedin_publish :: "linkedin_world \<Rightarrow> int \<Rightarrow> string \<Rightarrow> sys \<Rightarrow> post_result \<times> sys" where
  "linkedin_publish w now userId s0 =
     (let s = logCall CallPublish s0 in
      case li_post w of
        Inl e \<Rightarrow> linkedin_catch userId e s
      | Inr response \<Rightarrow>
          if \<not> ok response then
            (case bodyText response of
               Inl e \<Rightarrow> linkedin_catch userId e s
             | Inr errorBody \<Rightarrow>
                 (failure LinkedIn (''LinkedIn API Error: '' @ showInt (httpStatus response)
                                    @ '' - '' @ statusText response @ '' - '' @ errorBody),
                  writeBack s userId LinkedIn markInvalid))
          else (succeeded LinkedIn [''id'' \<mapsto> restliIdOrUndefined (restliId response)],
                writeBack s userId LinkedIn (markValid now)))"

definition linkedin_sendPost ::
  "client_config \<Rightarrow> (string \<Rightarrow> jwt_decoded) \<Rightarrow> linkedin_world \<Rightarrow> int \<Rightarrow> rat \<Rightarrow>
   settling_handler" where
  "linkedin_sendPost config jwtDecode w now nowInSeconds userId connection options s =
     (if \<not> truthy (field connection ''accessToken'')
        then (Inl (Error ''Missing LinkedIn accessToken''), s)
      else if \<not> truthy (field connection ''linkedInUserId'')
        then (Inl (Error
          ''Missing LinkedIn memberId. Ensure this is stored upon user connection.''), s)
      else (case linkedin_refresh config jwtDecode w now nowInSeconds userId connection s of
              (Throw e, s1) \<Rightarrow> (Inl e, s1)
            | (Return r, s1) \<Rightarrow> (Inr r, s1)
            | (Continue linkedinConn, s1) \<Rightarrow>
                (let (r, s2) = linkedin_publish w now userId (linkedin_media options s1)
                 in (Inr r, s2))))"

subsection \<open>TikTok\<close>

text \<open>
  \<open>tk_download\<close> is the download to a temporary file and its \<^verbatim>\<open>statSync\<close>: the path
  and the size. \<open>tk_initVideo\<close> answers the initialisation request, which carries the
  video size, the chunk size and the chunk count, with the members \<^verbatim>\<open>publish_id\<close> and
  \<^verbatim>\<open>upload_url\<close> of the response's data, or with \<open>None\<close> when the response has no
  data; \<open>tk_initPhoto\<close> likewise with \<^verbatim>\<open>publish_id\<close>. \<open>None\<close> in an \<open>option\<close> of
  errors means that the call succeeded.
\<close>

record tiktok_world =
  tk_refresh :: "js_error + token_response"
  tk_download :: "js_error + string \<times> nat"
  tk_initVideo :: "nat \<Rightarrow> nat \<Rightarrow> nat \<Rightarrow> js_error + (jsval \<times> jsval) option"
  tk_putChunks :: "js_error option"
  tk_publishVideo :: "js_error option"
  tk_initPhoto :: "js_error + jsval option"
  tk_publishPhoto :: "js_error option"

definition tiktok_refresh ::
  "client_config \<Rightarrow> (string \<Rightarrow> jwt_decoded) \<Rightarrow> tiktok_world \<Rightarrow> int \<Rightarrow> rat \<Rightarrow> string \<Rightarrow>
   jsobj \<Rightarrow> sys \<Rightarrow> jsobj step \<times> sys" where
  "tiktok_refresh config jwtDecode w now nowInSeconds userId connection s =
     (if isTokenExpired jwtDecode nowInSeconds (Some (asString (field connection ''accessToken'')))
      then
        (case tiktok_refreshToken config (tk_refresh w) now connection s of
           (Inl refreshError, s1) \<Rightarrow>
             (Throw (Error (''TikTok token refresh failed: '' @ message refreshError)),
              writeBack s1 userId TikTok markInvalid)
         | (Inr tiktokConn, s1) \<Rightarrow> (Continue tiktokConn, s1))
      else (Continue connection, s))"

definition handleVideoUpload :: "tiktok_world \<Rightarrow> nat \<Rightarrow> sys \<Rightarrow> (js_error + jsval) \<times> sys" where
  "handleVideoUpload w fileSize s0 =
     (let (effectiveChunkSize, totalChunks) = chunkPlan fileSize;
          s = logCall CallMedia s0
      in case tk_initVideo w fileSize effectiveChunkSize totalChunks of
           Inl e \<Rightarrow> (Inl e, s)
         | Inr None \<Rightarrow> (Inl (Error ''TikTok init video upload response missing data.''), s)
         | Inr (Some (publish_id, upload_url)) \<Rightarrow>
             if \<not> truthy publish_id \<or> \<not> truthy upload_url then
               (Inl (Error ''TikTok init video upload response missing publish_id or upload_url.''), s)
             else
               (let s1 = logCall CallMedia s in
                case tk_putChunks w of
                  Some e \<Rightarrow> (Inl e, s1)
                | None \<Rightarrow>
                    (let s2 = logCall CallPublish s1 in
                     case tk_publishVideo w of
                       Some e \<Rightarrow> (Inl e, s2)
                     | None \<Rightarrow> (Inr publish_id, s2))))"

definition handlePhotoUpload :: "tiktok_world \<Rightarrow> sys \<Rightarrow> (js_error + jsval) \<times> sys" where
  "handlePhotoUpload w s0 =
     (let s = logCall CallMedia s0 in
      case tk_initPhoto w of
        Inl e \<Rightarrow> (Inl e, s)
      | Inr None \<Rightarrow> (Inl (Error ''TikTok init photo upload response missing data.''), s)
      | Inr (Some publish_id) \<Rightarrow>
          if \<not> truthy publish_id then
            (Inl (Error ''TikTok init photo upload response missing publish_id.''), s)
          else
            (let s1 = logCall CallPublish s in
             case tk_publishPhoto w of
               Some e \<Rightarrow> (Inl e, s1)
             | None \<Rightarrow> (Inr publish_id, s1)))"

text \<open>
  The video branch of the \<^verbatim>\<open>try\<close> block: the publish id it leaves in
  \<^verbatim>\<open>publishId\<close>, or the error it throws.
\<close>

definition tiktok_video :: "tiktok_world \<Rightarrow> string \<Rightarrow> sys \<Rightarrow> (js_error + jsval) \<times> sys" where
  "tiktok_video w url s0 =
     (if isVideoFile url then
        (let s = logCall CallMedia s0 in
         case tk_download w of
           Inl e \<Rightarrow> (Inl e, s)
         | Inr (filePath, fileSize) \<Rightarrow>
             if \<not> isVideoFile filePath then (Inr JNull, s)
             else handleVideoUpload w fileSize s)
      else (Inr JNull, s0))"

definition tiktok_media :: "tiktok_world \<Rightarrow> string \<Rightarrow> sys \<Rightarrow> (js_error + jsval) \<times> sys" where
  "tiktok_media w url s0 =
     (case tiktok_video w url s0 of
        (Inl e, s) \<Rightarrow> (Inl e, s)
      | (Inr publishId, s) \<Rightarrow>
          (case (if \<not> truthy publishId then handlePhotoUpload w s else (Inr publishId, s)) of
             (Inl e, s1) \<Rightarrow> (Inl e, s1)
           | (Inr publishId', s1) \<Rightarrow>
               if \<not> truthy publishId' then
                 (Inl (Error ''TikTok publish_id was not received after media handling.''), s1)
               else (Inr publishId', s1)))"

definition tiktok_publish ::
  "tiktok_world \<Rightarrow> int \<Rightarrow> string \<Rightarrow> string \<Rightarrow> sys \<Rightarrow> post_result \<times> sys" where
  "tiktok_publish w now userId url s0 =
     (case tiktok_media w url s0 of
        (Inr publishId, s) \<Rightarrow>
          (succeeded TikTok [''publish_id'' \<mapsto> publishId],
           writeBack s userId TikTok (markValid now))
      | (Inl e, s) \<Rightarrow>
          (failure TikTok
             (orElse (responseErrorMessage e) (orElse (message e) ''Unknown TikTok Error'')),
           writeBack s userId TikTok markInvalid))"

definition tiktok_sendPost ::
  "client_config \<Rightarrow> (string \<Rightarrow> jwt_decoded) \<Rightarrow> tiktok_world \<Rightarrow> int \<Rightarrow> rat \<Rightarrow>
   settling_handler" where
  "tiktok_sendPost config jwtDecode w now nowInSeconds userId connection options s =
     (if \<not> truthy (field connection ''accessToken'')
        then (Inl (Error ''Missing TikTok accessToken''), s)
      else (case givenUrl options of
        None \<Rightarrow> (Inl (Error ''Missing mediaUrl for TikTok post''), s)
      | Some url \<Rightarrow>
          (case tiktok_refresh config jwtDecode w now nowInSeconds userId connection s of
             (Throw e, s1) \<Rightarrow> (Inl e, s1)
           | (Return r, s1) \<Rightarrow> (Inr r, s1)
           | (Continue tiktokConn, s1) \<Rightarrow>
               (let (r, s2) = tiktok_publish w now userId url s1 in (Inr r, s2)))))"

subsection \<open>Twitter\<close>

definition REFRESH_BUFFER_SECONDS :: int where
  "REFRESH_BUFFER_SECONDS = 300"

text \<open>
  The number that \<^verbatim>\<open>expiryTime <= refreshThreshold\<close> compares: the time value of a
  \<^verbatim>\<open>Date\<close>; the \<^verbatim>\<open>toMillis()\<close> of a store timestamp, unless that is \<open>0\<close>, when
  \<^verbatim>\<open>||\<close> yields the timestamp object itself; a number itself; and for every other value
  the number the comparison coerces it to. \<open>toNumber\<close> is that coercion where it parses
  text or calls a method of the object: on a string, on an array and on a timestamp
  object.
\<close>

fun expiryTime :: "(jsval \<Rightarrow> jsnum) \<Rightarrow> jsval \<Rightarrow> jsnum" where
  "expiryTime toNumber (JDate ms) = JsFinite (of_int ms)"
| "expiryTime toNumber (JTimestamp ms) =
     (if ms \<noteq> 0 then JsFinite (of_int ms) else toNumber (JTimestamp ms))"
| "expiryTime toNumber (JNum n) = n"
| "expiryTime toNumber (JBool b) = JsFinite (if b then 1 else 0)"
| "expiryTime toNumber JNull = JsFinite 0"
| "expiryTime toNumber JUndefined = JsNaN"
| "expiryTime toNumber (JStr x) = toNumber (JStr x)"
| "expiryTime toNumber (JStrs xs) = toNumber (JStrs xs)"

definition twitter_needsRefresh :: "(jsval \<Rightarrow> jsnum) \<Rightarrow> int \<Rightarrow> jsobj \<Rightarrow> bool" where
  "twitter_needsRefresh toNumber now twitterConn =
     (if \<not> truthy (field twitterConn ''expiresAt'') then True
      else
        (let refreshThreshold = JsFinite (of_int (now + REFRESH_BUFFER_SECONDS * 1000))
         in jsLe (expiryTime toNumber (field twitterConn ''expiresAt'')) refreshThreshold))"

text \<open>
  \<open>tw_toNumber\<close> is the coercion above. \<open>tw_media\<close> is the download and upload of the
  media. \<open>tw_tweet\<close> is the first \<^verbatim>\<open>v2.tweet\<close>: it throws, or returns a result whose
  \<^verbatim>\<open>data\<close> is absent (\<open>None\<close>, so that reading \<^verbatim>\<open>result.data.id\<close> throws) or has
  the \<^verbatim>\<open>id\<close> given, which the handler does not look at. \<open>tw_refresh2\<close> and
  \<open>tw_tweet2\<close> are the reactive refresh and the retry.
\<close>

record twitter_world =
  tw_toNumber :: "jsval \<Rightarrow> jsnum"
  tw_refresh :: "js_error + token_response"
  tw_media :: "js_error + string"
  tw_tweet :: "js_error + jsval option"
  tw_refresh2 :: "js_error + token_response"
  tw_tweet2 :: "js_error + jsval option"

definition twitter_refresh ::
  "client_config \<Rightarrow> twitter_world \<Rightarrow> int \<Rightarrow> string \<Rightarrow> jsobj \<Rightarrow> sys \<Rightarrow> jsobj step \<times> sys" where
  "twitter_refresh config w now userId connection s =
     (if twitter_needsRefresh (tw_toNumber w) now connection then
        (case twitter_refreshToken config (tw_refresh w) now connection s of
           (Inl refreshError, s1) \<Rightarrow>
             (Throw (Error (''Twitter token refresh failed: '' @ message refreshError)),
              writeBack s1 userId Twitter markInvalid)
         | (Inr twitterConn, s1) \<Rightarrow> (Continue twitterConn, s1))
      else (Continue connection, s))"

definition twitter_media :: "twitter_world \<Rightarrow> post_options \<Rightarrow> sys \<Rightarrow> string option \<times> sys" where
  "twitter_media w options s =
     (case givenUrl options of
        None \<Rightarrow> (None, s)
      | Some url \<Rightarrow>
          (case tw_media w of
             Inl mediaError \<Rightarrow> (None, logCall CallMedia s)
           | Inr uploadResult \<Rightarrow> (Some uploadResult, logCall CallMedia s)))"

definition isAuthErrorTwitter :: "js_error \<Rightarrow> bool" where
  "isAuthErrorTwitter tweetError =
     (isApiResponseError tweetError \<and> (code tweetError = Some 401 \<or> code tweetError = Some 403))"

definition tweetResult :: "jsval \<Rightarrow> post_result" where
  "tweetResult tweetId = succeeded Twitter [''id'' \<mapsto> tweetId, ''tweetId'' \<mapsto> tweetId]"

text \<open>
  The reactive branch: the \<^verbatim>\<open>try\<close> around the second refresh and the retry. The
  write-back of validity comes before the result is built, so it has happened when reading
  the id throws.
\<close>

definition twitter_retry ::
  "client_config \<Rightarrow> twitter_world \<Rightarrow> int \<Rightarrow> string \<Rightarrow> jsobj \<Rightarrow> sys \<Rightarrow> post_result \<times> sys" where
  "twitter_retry config w now userId twitterConn s =
     (case twitter_refreshToken config (tw_refresh2 w) now twitterConn s of
        (Inl refreshOrRetryError, s1) \<Rightarrow>
          (failure Twitter
             (''Twitter reactive refresh/retry failed: '' @ message refreshOrRetryError),
           writeBack s1 userId Twitter markInvalid)
      | (Inr twitterConn', s1) \<Rightarrow>
          (let s2 = logCall CallPublish s1 in
           case tw_tweet2 w of
             Inl refreshOrRetryError \<Rightarrow>
               (failure Twitter
                  (''Twitter reactive refresh/retry failed: '' @ message refreshOrRetryError),
                writeBack s2 userId Twitter markInvalid)
           | Inr None \<Rightarrow>
               (failure Twitter
                  (''Twitter reactive refresh/retry failed: '' @ message (cannotRead ''id'')),
                writeBack (writeBack s2 userId Twitter (markValid now)) userId Twitter markInvalid)
           | Inr (Some tweetId) \<Rightarrow>
               (tweetResult tweetId, writeBack s2 userId Twitter (markValid now))))"

text \<open>The \<^verbatim>\<open>catch\<close> block of the first tweet.\<close>

definition twitter_catch ::
  "client_config \<Rightarrow> twitter_world \<Rightarrow> int \<Rightarrow> bool \<Rightarrow> string \<Rightarrow> jsobj \<Rightarrow> js_error \<Rightarrow> sys \<Rightarrow>
   post_result \<times> sys" where
  "twitter_catch config w now needsRefresh userId twitterConn tweetError s =
     (if isAuthErrorTwitter tweetError \<and> \<not> needsRefresh
      then twitter_retry config w now userId twitterConn s
      else (failure Twitter (orElse (message tweetError) ''Unknown Twitter Error''),
            if isAuthErrorTwitter tweetError
            then writeBack s userId Twitter markInvalid else s))"

definition twitter_publish ::
  "client_config \<Rightarrow> twitter_world \<Rightarrow> int \<Rightarrow> bool \<Rightarrow> string \<Rightarrow> jsobj \<Rightarrow> sys \<Rightarrow> post_result \<times> sys" where
  "twitter_publish config w now needsRefresh userId twitterConn s0 =
     (let s = logCall CallPublish s0 in
      case tw_tweet w of
        Inl tweetError \<Rightarrow> twitter_catch config w now needsRefresh userId twitterConn tweetError s
      | Inr data \<Rightarrow>
          (let s1 = writeBack s userId Twitter (markValid now) in
           case data of
             None \<Rightarrow>
               twitter_catch config w now needsRefresh userId twitterConn (cannotRead ''id'') s1
           | Some tweetId \<Rightarrow> (tweetResult tweetId, s1)))"

definition twitter_sendPost :: "client_config \<Rightarrow> twitter_world \<Rightarrow> int \<Rightarrow> settling_handler" where
  "twitter_sendPost config w now userId connection options s =
     (if \<not> truthy (field connection ''accessToken'')
        then (Inl (Error ''Missing Twitter accessToken''), s)
      else (case twitter_refresh config w now userId connection s of
              (Throw e, s1) \<Rightarrow> (Inl e, s1)
            | (Return r, s1) \<Rightarrow> (Inr r, s1)
            | (Continue twitterConn, s1) \<Rightarrow>
                if \<not> truthy (field twitterConn ''accessToken'')
                  then (Inl (Error ''Missing Twitter accessToken''), s1)
                else
                  (let (mediaUploadId, s2) = twitter_media w options s1;
                       (r, s3) = twitter_publish config w now
                                   (twitter_needsRefresh (tw_toNumber w) now connection)
                                   userId twitterConn s2
                   in (Inr r, s3))))"

subsection \<open>Bluesky\<close>

text \<open>
  What the agent and the network answer during one \<open>sendPost\<close>, in the order of use:
  the two \<^verbatim>\<open>resumeSession\<close> calls, the provider's refresh request, whether
  \<^verbatim>\<open>agent.session\<close> is set at the media block and before posting, the calls of
  \<^verbatim>\<open>uploadVideo\<close> (below), the image download (the length of the buffer) and blob
  upload, the facet detection, the two \<^verbatim>\<open>agent.post\<close> calls, the agent's own
  \<^verbatim>\<open>refreshSession\<close> and the tokens of the session it leaves. An \<^verbatim>\<open>agent.post\<close>
  throws, or returns a result that is absent (\<open>None\<close>) or has the \<^verbatim>\<open>uri\<close> and
  \<^verbatim>\<open>cid\<close> given, which the handler does not look at. \<open>bs_toFixed\<close> prints a byte
  count as megabytes with two decimals.

  \<^verbatim>\<open>uploadVideo\<close>: \<open>bs_videoUpload\<close> is everything up to the reading of the job status
  of the upload response (the service token, the download, the upload, the parsing); it
  throws, or says whether the job status has its \<^verbatim>\<open>blob\<close>. \<open>bs_jobStatus i\<close> is the
  request for the job status in round \<open>i\<close> of the polling loop, with the same two
  outcomes. \<open>bs_videoDimensions\<close> is \<^verbatim>\<open>getVideoDimensions\<close>.
\<close>

record bluesky_world =
  bs_resume :: "js_error option"
  bs_refresh :: "js_error + (string \<times> string \<times> string \<times> string) http_response"
  bs_refreshErrorCode :: string
  bs_resume2 :: "js_error option"
  bs_sessionAtMedia :: bool
  bs_videoUpload :: "js_error + bool"
  bs_jobStatus :: "nat \<Rightarrow> js_error + bool"
  bs_videoDimensions :: "js_error option"
  bs_download :: "js_error + nat"
  bs_uploadBlob :: "js_error option"
  bs_sessionAtPost :: bool
  bs_detectFacets :: "js_error option"
  bs_post :: "js_error + (jsval \<times> jsval) option"
  bs_refreshSession :: "js_error option"
  bs_newSession :: "(string \<times> string) option"
  bs_post2 :: "js_error + (jsval \<times> jsval) option"
  bs_toFixed :: "nat \<Rightarrow> string"

definition BLUESKY_LIMIT_MB :: nat where
  "BLUESKY_LIMIT_MB = 1"

text \<open>
  The session block. It continues with the connection in use and the flag
  \<^verbatim>\<open>sessionRefreshedProactively\<close>.
\<close>

definition bluesky_session ::
  "(string \<Rightarrow> jwt_decoded) \<Rightarrow> bluesky_world \<Rightarrow> int \<Rightarrow> rat \<Rightarrow> string \<Rightarrow> jsobj \<Rightarrow> sys \<Rightarrow>
   (jsobj \<times> bool) step \<times> sys" where
  "bluesky_session jwtDecode w now nowInSeconds userId connection s =
     (case bs_resume w of
        None \<Rightarrow> (Continue (connection, False), s)
      | Some resumeError \<Rightarrow>
          if isTokenExpired jwtDecode nowInSeconds
               (Some (asString (field connection ''accessJwt'')))
             \<or> isAuthError Bluesky resumeError
          then
            (case bluesky_refreshToken (bs_refresh w) (bs_refreshErrorCode w) now connection s of
               (Inl refreshError, s1) \<Rightarrow>
                 (Return (failure Bluesky
                    (''Bluesky session refresh failed: '' @ message refreshError)),
                  writeBack s1 userId Bluesky markInvalid)
             | (Inr bskyConn, s1) \<Rightarrow>
                 (case bs_resume2 w of
                    Some refreshError \<Rightarrow>
                      (Return (failure Bluesky
                         (''Bluesky session refresh failed: '' @ message refreshError)),
                       writeBack s1 userId Bluesky markInvalid)
                  | None \<Rightarrow> (Continue (bskyConn, True), s1)))
          else (Throw resumeError, s))"

definition bluesky_mediaFailed :: "js_error \<Rightarrow> post_result" where
  "bluesky_mediaFailed mediaError =
     failure Bluesky (''Bluesky media upload failed: '' @ message mediaError)"

text \<open>
  The polling loop of \<^verbatim>\<open>uploadVideo\<close>, \<^verbatim>\<open>while (!blob)\<close>, from round \<open>i\<close> on. A round
  asks for the job status, takes the blob if the status has one, and sleeps a second. The
  loop has no other exit: it ends when a request throws (\<open>Inl\<close>) or a status has the blob
  (\<open>Inr ()\<close>), and it does not end (\<open>None\<close>) while neither happens.
\<close>

partial_function (option) pollJobStatus ::
  "(nat \<Rightarrow> js_error + bool) \<Rightarrow> nat \<Rightarrow> (js_error + unit) option" where
  "pollJobStatus jobStatus i =
     (case jobStatus i of
        Inl e \<Rightarrow> Some (Inl e)
      | Inr blob \<Rightarrow> if blob then Some (Inr ()) else pollJobStatus jobStatus (Suc i))"

definition uploadVideo :: "bluesky_world \<Rightarrow> (js_error + unit) option" where
  "uploadVideo w =
     (case bs_videoUpload w of
        Inl e \<Rightarrow> Some (Inl e)
      | Inr blob \<Rightarrow>
          (case (if blob then Some (Inr ()) else pollJobStatus (bs_jobStatus w) 0) of
             None \<Rightarrow> None
           | Some (Inl e) \<Rightarrow> Some (Inl e)
           | Some (Inr u) \<Rightarrow>
               (case bs_videoDimensions w of
                  Some e \<Rightarrow> Some (Inl e)
                | None \<Rightarrow> Some (Inr ()))))"

definition bluesky_media ::
  "bluesky_world \<Rightarrow> post_options \<Rightarrow> sys \<Rightarrow> (unit step \<times> sys) option" where
  "bluesky_media w options s0 =
     (case givenUrl options of
        None \<Rightarrow> Some (Continue (), s0)
      | Some url \<Rightarrow>
          if isVideoFile url then
            (if \<not> bs_sessionAtMedia w then
               Some (Return (failure Bluesky ''Bluesky agent session lost before video upload.''),
                     s0)
             else (case uploadVideo w of
                     None \<Rightarrow> None
                   | Some (Inl mediaError) \<Rightarrow>
                       Some (Return (bluesky_mediaFailed mediaError), logCall CallMedia s0)
                   | Some (Inr u) \<Rightarrow> Some (Continue (), logCall CallMedia s0)))
          else
            (let s = logCall CallMedia s0 in
             case bs_download w of
               Inl mediaError \<Rightarrow> Some (Return (bluesky_mediaFailed mediaError), s)
             | Inr len \<Rightarrow>
                 if len > BLUESKY_LIMIT_MB * 1024 * 1024 then
                   Some (Return (failure Bluesky
                      (''Bluesky media size ('' @ bs_toFixed w len @ '' MB) exceeds ''
                       @ showNat BLUESKY_LIMIT_MB @ ''MB limit.'')), s)
                 else if \<not> bs_sessionAtMedia w then
                   Some (Return (failure Bluesky
                      ''Bluesky agent session lost before image upload.''), s)
                 else (case bs_uploadBlob w of
                         Some mediaError \<Rightarrow>
                           Some (Return (bluesky_mediaFailed mediaError), logCall CallMedia s)
                       | None \<Rightarrow> Some (Continue (), logCall CallMedia s))))"

definition bluesky_posted :: "jsval \<times> jsval \<Rightarrow> post_result" where
  "bluesky_posted r = succeeded Bluesky [''uri'' \<mapsto> fst r, ''cid'' \<mapsto> snd r]"

text \<open>
  The reactive branch of the \<^verbatim>\<open>catch\<close>: \<open>Some\<close> when it returns the result of the
  second post, \<open>None\<close> when it falls through to the error handling.
\<close>

definition bluesky_reactive ::
  "bluesky_world \<Rightarrow> int \<Rightarrow> string \<Rightarrow> sys \<Rightarrow> post_result option \<times> sys" where
  "bluesky_reactive w now userId s0 =
     (let s = logCall CallRefreshToken s0 in
      case bs_refreshSession w of
        Some refreshError \<Rightarrow> (None, s)
      | None \<Rightarrow>
          (case bs_newSession w of
             None \<Rightarrow> (None, s)
           | Some (accessJwt, refreshJwt) \<Rightarrow>
               if accessJwt = [] \<or> refreshJwt = [] then (None, s)
               else
                 (let s1 = writeBack s userId Bluesky
                        (markValid now ++ [''accessJwt'' \<mapsto> JStr accessJwt,
                                           ''refreshJwt'' \<mapsto> JStr refreshJwt]);
                      s2 = logCall CallPublish s1
                  in case bs_post2 w of
                       Inl refreshError \<Rightarrow> (None, s2)
                     | Inr None \<Rightarrow> (None, s2)
                     | Inr (Some r) \<Rightarrow> (Some (bluesky_posted r), s2))))"

text \<open>The \<^verbatim>\<open>catch\<close> block of the first post.\<close>

definition bluesky_catch ::
  "bluesky_world \<Rightarrow> int \<Rightarrow> bool \<Rightarrow> string \<Rightarrow> js_error \<Rightarrow> sys \<Rightarrow> post_result \<times> sys" where
  "bluesky_catch w now sessionRefreshedProactively userId apiError s =
     (case (if \<not> sessionRefreshedProactively \<and> isAuthError Bluesky apiError
            then bluesky_reactive w now userId s else (None, s)) of
        (Some r, s1) \<Rightarrow> (r, s1)
      | (None, s1) \<Rightarrow>
          (failure Bluesky (''Bluesky API Error: '' @ orElse (message apiError) ''Unknown''),
           writeBack s1 userId Bluesky
             [''isValid'' \<mapsto> JBool False,
              ''needsReconnection'' \<mapsto> JBool (isAuthError Bluesky apiError)]))"

text \<open>
  The write-back of validity comes before the result is built, so it has happened when
  reading \<^verbatim>\<open>result.uri\<close> throws.
\<close>

definition bluesky_publish ::
  "bluesky_world \<Rightarrow> int \<Rightarrow> bool \<Rightarrow> string \<Rightarrow> sys \<Rightarrow> post_result \<times> sys" where
  "bluesky_publish w now sessionRefreshedProactively userId s0 =
     (let s = logCall CallPublish s0 in
      case bs_post w of
        Inl apiError \<Rightarrow> bluesky_catch w now sessionRefreshedProactively userId apiError s
      | Inr res \<Rightarrow>
          (let s1 = (if \<not> sessionRefreshedProactively
                     then writeBack s userId Bluesky (markValid now) else s) in
           case res of
             None \<Rightarrow>
               bluesky_catch w now sessionRefreshedProactively userId (cannotRead ''uri'') s1
           | Some r \<Rightarrow> (bluesky_posted r, s1)))"

definition bluesky_sendPost ::
  "(string \<Rightarrow> jwt_decoded) \<Rightarrow> bluesky_world \<Rightarrow> int \<Rightarrow> rat \<Rightarrow> handler" where
  "bluesky_sendPost jwtDecode w now nowInSeconds userId connection options s =
     (if \<not> truthy (field connection ''handle'') \<or> \<not> truthy (field connection ''did'')
         \<or> \<not> truthy (field connection ''accessJwt'') \<or> \<not> truthy (field connection ''refreshJwt'')
      then Some (Inr (failure Bluesky
        ''Missing required Bluesky credentials (handle, did, accessJwt, refreshJwt).''), s)
      else (case bluesky_session jwtDecode w now nowInSeconds userId connection s of
              (Throw e, s1) \<Rightarrow> Some (Inl e, s1)
            | (Return r, s1) \<Rightarrow> Some (Inr r, s1)
            | (Continue (bskyConn, sessionRefreshedProactively), s1) \<Rightarrow>
                (case bluesky_media w options s1 of
                   None \<Rightarrow> None
                 | Some (Throw e, s2) \<Rightarrow> Some (Inl e, s2)
                 | Some (Return r, s2) \<Rightarrow> Some (Inr r, s2)
                 | Some (Continue u, s2) \<Rightarrow>
                     if \<not> bs_sessionAtPost w then
                       Some (Inr (failure Bluesky ''Bluesky agent session lost before posting.''),
                             s2)
                     else (case bs_detectFacets w of
                             Some e \<Rightarrow> Some (Inl e, s2)
                           | None \<Rightarrow>
                               (let (r, s3) = bluesky_publish w now
                                                sessionRefreshedProactively userId s2
                                in Some (Inr r, s3))))))"

section \<open>The dispatcher (dispatcher.ts)\<close>

text \<open>
  The configuration says which platforms are present, with the client credentials of the
  four OAuth platforms. \<open>world\<close> collects what the outside answers to each handler.
\<close>

record platform_config =
  cfg_twitter :: "client_config option"
  cfg_linkedin :: "client_config option"
  cfg_bluesky :: bool
  cfg_tiktok :: "client_config option"
  cfg_threads :: "client_config option"
  cfg_devto :: bool
  cfg_discord :: bool
  cfg_github :: bool

record world =
  clock :: int
  clockSeconds :: rat
  jwt :: "string \<Rightarrow> jwt_decoded"
  w_twitter :: twitter_world
  w_linkedin :: linkedin_world
  w_bluesky :: bluesky_world
  w_tiktok :: tiktok_world
  w_devto :: "js_error + devto_article http_response"
  w_threads :: threads_world
  w_discord :: "js_error + unit http_response"

definition initializeHandlers :: "platform_config \<Rightarrow> world \<Rightarrow> platform \<rightharpoonup> handler" where
  "initializeHandlers config w p =
     (case p of
        Twitter \<Rightarrow>
          map_option (\<lambda>c. settling (twitter_sendPost c (w_twitter w) (clock w)))
            (cfg_twitter config)
      | LinkedIn \<Rightarrow>
          map_option
            (\<lambda>c. settling (linkedin_sendPost c (jwt w) (w_linkedin w) (clock w) (clockSeconds w)))
            (cfg_linkedin config)
      | Bluesky \<Rightarrow>
          (if cfg_bluesky config
           then Some (bluesky_sendPost (jwt w) (w_bluesky w) (clock w) (clockSeconds w))
           else None)
      | TikTok \<Rightarrow>
          map_option
            (\<lambda>c. settling (tiktok_sendPost c (jwt w) (w_tiktok w) (clock w) (clockSeconds w)))
            (cfg_tiktok config)
      | Devto \<Rightarrow>
          (if cfg_devto config then Some (settling (devto_sendPost (w_devto w) (clock w)))
           else None)
      | Threads \<Rightarrow>
          map_option (\<lambda>c. settling (threads_sendPost (w_threads w) (clock w)))
            (cfg_threads config)
      | Discord \<Rightarrow>
          (if cfg_discord config then Some (settling (discord_sendPost (w_discord w) (clock w)))
           else None)
      | GitHub \<Rightarrow> (if cfg_github config then Some (settling github_sendPost) else None))"

text \<open>The keys of the handler table, in the order \<^verbatim>\<open>initializeHandlers\<close> inserts them.\<close>

definition handlerKeys :: "(platform \<rightharpoonup> handler) \<Rightarrow> platform list" where
  "handlerKeys handlers =
     filter (\<lambda>p. handlers p \<noteq> None)
       [Twitter, LinkedIn, Bluesky, TikTok, Devto, Threads, Discord, GitHub]"

text \<open>
  \<^verbatim>\<open>postToPlatform\<close> awaits the handler inside its \<^verbatim>\<open>try\<close>: it settles when the
  handler does, and not before.
\<close>

definition postToPlatform ::
  "(platform \<rightharpoonup> handler) \<Rightarrow> platform \<Rightarrow> string \<Rightarrow> post_options \<Rightarrow> sys \<Rightarrow> outcome option" where
  "postToPlatform handlers p userId options s =
     (case handlers p of
        None \<Rightarrow> Some (Inl (Error (''Unsupported platform: '' @ platform_name p)), s)
      | Some h \<Rightarrow>
          (case getConnection (db s) userId p of
             None \<Rightarrow>
               Some (Inl (Error (''No connection found for platform '' @ platform_name p
                                 @ '' and user '' @ userId)), s)
           | Some connection \<Rightarrow>
               (case h userId connection options s of
                  None \<Rightarrow> None
                | Some (Inr r, s') \<Rightarrow> Some (Inr r, s')
                | Some (Inl e, s') \<Rightarrow>
                    Some (Inr (failure p (orElse (message e) ''Unknown error occurred'')), s'))))"

text \<open>
  \<^verbatim>\<open>postToAll\<close>: the entry \<^verbatim>\<open>Promise.allSettled\<close> and the final \<^verbatim>\<open>map\<close> make of one
  settled \<open>postToPlatform\<close>, and the array of the entries. \<^verbatim>\<open>Promise.allSettled\<close>
  settles when every promise given to it has settled (\<open>those\<close>); until then
  \<open>postToAll\<close> returns nothing. Every \<open>postToPlatform\<close> is started, and reads its
  connection, before any handler has written to the store, and no handler reads the store
  again; so each is run from the store \<open>postToAll\<close> was called with. The array is what
  is modelled, not the store the concurrent handlers leave.
\<close>

definition settledEntry :: "platform \<Rightarrow> (js_error + post_result) \<Rightarrow> post_result" where
  "settledEntry p outcome =
     (case outcome of
        Inr v \<Rightarrow> v
      | Inl reason \<Rightarrow> failure p (orElse (message reason) ''Unknown error''))"

definition postToAll ::
  "(platform \<rightharpoonup> handler) \<Rightarrow> string \<Rightarrow> post_options \<Rightarrow> platform list option \<Rightarrow> sys \<Rightarrow>
   post_result list option" where
  "postToAll handlers userId options platforms s =
     (let targetPlatforms = (case platforms of Some ps \<Rightarrow> ps | None \<Rightarrow> handlerKeys handlers);
          promises = map (\<lambda>p. map_option fst (postToPlatform handlers p userId options s))
                       targetPlatforms
      in map_option (\<lambda>results. map (\<lambda>(p, outcome). settledEntry p outcome)
                                    (zip targetPlatforms results))
           (those promises))"

section \<open>Observations on a run\<close>

text \<open>
  Between the states \<open>s\<close> and \<open>s'\<close> of a run, calls were only added to the log, and no
  refresh of the credential was among them.
\<close>

definition noRefreshBetween :: "sys \<Rightarrow> sys \<Rightarrow> bool" where
  "noRefreshBetween s s' =
     (prefix (calls s) (calls s')
      \<and> CallRefreshToken \<notin> set (drop (length (calls s)) (calls s')))"




text \<open>
  What the handlers do guarantee of a successful \<^verbatim>\<open>result\<close> object, platform by
  platform. TikTok checks its publish id for truthiness. Dev.to's id is the string
  \<^verbatim>\<open>toString()\<close> returned; its URL and title are passed on. Discord's object is the
  empty literal. Twitter, Threads and Bluesky pass on the identifiers of the response as
  they are, LinkedIn the \<^verbatim>\<open>x-restli-id\<close> header if it is a non-empty string and
  \<^verbatim>\<open>undefined\<close> otherwise. GitHub's handler has no successful result.
\<close>

fun successShape :: "platform \<Rightarrow> jsobj \<Rightarrow> bool" where
  "successShape Twitter obj = (\<exists>v. obj = [''id'' \<mapsto> v, ''tweetId'' \<mapsto> v])"
| "successShape LinkedIn obj =
     (\<exists>v. obj = [''id'' \<mapsto> v] \<and> (v = JUndefined \<or> (\<exists>x. x \<noteq> [] \<and> v = JStr x)))"
| "successShape Bluesky obj = (\<exists>u c. obj = [''uri'' \<mapsto> u, ''cid'' \<mapsto> c])"
| "successShape TikTok obj = (\<exists>v. truthy v \<and> obj = [''publish_id'' \<mapsto> v])"
| "successShape Devto obj = (\<exists>x u t. obj = [''id'' \<mapsto> JStr x, ''url'' \<mapsto> u, ''title'' \<mapsto> t])"
| "successShape Threads obj = (\<exists>v. obj = [''id'' \<mapsto> v])"
| "successShape Discord obj = (obj = Map.empty)"
| "successShape GitHub obj = False"

declare successShape.simps [simp del]

text \<open>
  A result as platform \<open>p\<close> produces it: it names the platform; a successful one has
  the object above and no error; a failed one has a non-empty error and no result.
\<close>

definition producedResult :: "platform \<Rightarrow> post_result \<Rightarrow> bool" where
  "producedResult p r =
     (platform r = Some (platform_name p)
      \<and> (if success r
         then error r = None
              \<and> (case result r of None \<Rightarrow> False | Some obj \<Rightarrow> successShape p obj)
         else result r = None
              \<and> (case error r of None \<Rightarrow> False | Some msg \<Rightarrow> msg \<noteq> [])))"

text \<open>The validity flags of the connection stored for a user and platform.\<close>

definition storedFlag :: "memory_adapter \<Rightarrow> string \<Rightarrow> platform \<Rightarrow> string \<Rightarrow> jsval option" where
  "storedFlag d userId p k = map_option (\<lambda>c. field c k) (getConnection d userId p)"

definition flaggedInvalid :: "memory_adapter \<Rightarrow> string \<Rightarrow> platform \<Rightarrow> bool" where
  "flaggedInvalid d userId p =
     (storedFlag d userId p ''isValid'' = Some (JBool False)
      \<and> storedFlag d userId p ''needsReconnection'' = Some (JBool True))"

definition flaggedValid :: "int \<Rightarrow> memory_adapter \<Rightarrow> string \<Rightarrow> platform \<Rightarrow> bool" where
  "flaggedValid now d userId p =
     (storedFlag d userId p ''isValid'' = Some (JBool True)
      \<and> storedFlag d userId p ''needsReconnection'' = Some (JBool False)
      \<and> storedFlag d userId p ''lastValidated'' = Some (JDate now))"

section \<open>Concrete inputs\<close>

text \<open>The inputs at which the theorems below are instantiated.\<close>

definition emptyStore :: memory_adapter where
  "emptyStore = \<lparr> connections = Map.empty, oauthStates = Map.empty \<rparr>"

definition demoConfig :: client_config where
  "demoConfig = \<lparr> clientId = ''client'', clientSecret = ''secret'' \<rparr>"

definition emptyIdConfig :: client_config where
  "emptyIdConfig = \<lparr> clientId = [], clientSecret = ''secret'' \<rparr>"

definition demoToken :: token_response where
  "demoToken = \<lparr> access_token = ''at'', refresh_token = Some ''rt'', id_token = None,
                  expires_in = 7200, scope = ''tweet.read'' \<rparr>"

definition demoNet :: callback_net where
  "demoNet = \<lparr> exchange = Inr demoToken, profile = Inr (Some (''42'', ''alice'')) \<rparr>"

definition pendingStore :: memory_adapter where
  "pendingStore =
     \<lparr> connections = Map.empty,
       oauthStates = [''abc'' \<mapsto> \<lparr> uid = ''alice'', codeVerifier = ''v'', state = ''abc'',
                                    createdAt = 0 \<rparr>] \<rparr>"

definition demoJwt :: "string \<Rightarrow> jwt_decoded" where
  "demoJwt t =
     (if t = ''good'' then DecodedObject [''exp'' \<mapsto> JNum (JsFinite 2000)] else DecodeThrows)"

definition aliceTwitter :: jsobj where
  "aliceTwitter = [''uid'' \<mapsto> JStr ''alice'', ''accessToken'' \<mapsto> JStr ''at'',
                   ''isValid'' \<mapsto> JBool True, ''needsReconnection'' \<mapsto> JBool False]"

definition aliceStore :: memory_adapter where
  "aliceStore = \<lparr> connections = [''alice:twitter'' \<mapsto> aliceTwitter], oauthStates = Map.empty \<rparr>"

definition noContent :: "unit http_response" where
  "noContent = \<lparr> ok = True, httpStatus = 204, statusText = ''No Content'', bodyText = Inr [],
                  bodyJson = Inr (), restliId = None \<rparr>"

definition unprocessable :: "devto_article http_response" where
  "unprocessable = \<lparr> ok = False, httpStatus = 422, statusText = ''Unprocessable Entity'',
                      bodyText = Inr ''bad'', bodyJson = Inl (Error ''no body''), restliId = None \<rparr>"

definition threeHandlers :: "platform \<rightharpoonup> handler" where
  "threeHandlers = [Discord \<mapsto> settling (discord_sendPost (Inr noContent) 1000),
                    GitHub \<mapsto> settling github_sendPost,
                    Devto \<mapsto> settling (devto_sendPost (Inr unprocessable) 1000)]"

definition threeStore :: sys where
  "threeStore =
     \<lparr> db = \<lparr> connections = [''alice:discord'' \<mapsto> [''webhookUrl'' \<mapsto> JStr ''https://hook''],
                               ''alice:github'' \<mapsto> [''uid'' \<mapsto> JStr ''alice''],
                               ''alice:devto'' \<mapsto> [''apiKey'' \<mapsto> JStr ''key'']],
              oauthStates = Map.empty \<rparr>,
       calls = [] \<rparr>"

definition helloPost :: post_options where
  "helloPost = \<lparr> postText = ''Hello'', mediaUrl = None, mediaAltText = None,
                  projectName = None, postData = None \<rparr>"

definition idle :: sys where
  "idle = \<lparr> db = emptyStore, calls = [] \<rparr>"

definition staleTwitter :: jsobj where
  "staleTwitter = [''uid'' \<mapsto> JStr ''alice'', ''accessToken'' \<mapsto> JStr ''at'',
                   ''refreshToken'' \<mapsto> JStr ''rt'', ''expiresAt'' \<mapsto> JDate 0]"

definition twitterWorld :: twitter_world where
  "twitterWorld = \<lparr> tw_toNumber = (\<lambda>v. JsNaN), tw_refresh = Inr demoToken,
                     tw_media = Inl (Error ''no media''), tw_tweet = Inr (Some (JStr ''1'')),
                     tw_refresh2 = Inr demoToken, tw_tweet2 = Inr (Some (JStr ''2'')) \<rparr>"

definition staleThreads :: jsobj where
  "staleThreads = [''uid'' \<mapsto> JStr ''alice'', ''accessToken'' \<mapsto> JStr ''at'',
                   ''threadsUserId'' \<mapsto> JStr ''7'', ''expiresAt'' \<mapsto> JDate 0]"

definition created :: "string \<Rightarrow> jsval http_response" where
  "created ident = \<lparr> ok = True, httpStatus = 200, statusText = ''OK'', bodyText = Inr [],
                      bodyJson = Inr (JStr ident), restliId = None \<rparr>"

definition threadsWorld :: threads_world where
  "threadsWorld = \<lparr> th_container = Inr (created ''c1''), th_publish = Inr (created ''t1'') \<rparr>"

definition aliceLinkedin :: jsobj where
  "aliceLinkedin = [''uid'' \<mapsto> JStr ''alice'', ''accessToken'' \<mapsto> JStr ''good'',
                    ''linkedInUserId'' \<mapsto> JStr ''m1'', ''expiresAt'' \<mapsto> JDate 0,
                    ''isValid'' \<mapsto> JBool True, ''needsReconnection'' \<mapsto> JBool False]"

definition linkedinSys :: sys where
  "linkedinSys =
     \<lparr> db = \<lparr> connections = [''alice:linkedin'' \<mapsto> aliceLinkedin], oauthStates = Map.empty \<rparr>,
       calls = [] \<rparr>"

text \<open>A 201 response without the \<^verbatim>\<open>x-restli-id\<close> header, and a 500 response.\<close>

definition linkedinCreated :: linkedin_world where
  "linkedinCreated =
     \<lparr> li_refresh = Inl (Error ''unused''),
       li_post = Inr \<lparr> ok = True, httpStatus = 201, statusText = ''Created'', bodyText = Inr [],
                       bodyJson = Inr (), restliId = None \<rparr> \<rparr>"

definition linkedinServerError :: linkedin_world where
  "linkedinServerError =
     \<lparr> li_refresh = Inl (Error ''unused''),
       li_post = Inr \<lparr> ok = False, httpStatus = 500, statusText = ''Internal Server Error'',
                       bodyText = Inr ''oops'', bodyJson = Inr (), restliId = None \<rparr> \<rparr>"

definition serverError :: js_error where
  "serverError = \<lparr> message = ''LinkedIn API Error: 500 - Internal Server Error - oops'',
                    status = Some 500, responseStatus = None, code = None,
                    isApiResponseError = False, responseErrorMessage = [], dataError = [] \<rparr>"


definition discordAndBluesky :: platform_config where
  "discordAndBluesky = \<lparr> cfg_twitter = None, cfg_linkedin = None, cfg_bluesky = True,
                          cfg_tiktok = None, cfg_threads = None, cfg_devto = False,
                          cfg_discord = True, cfg_github = False \<rparr>"

definition blueskyWorld :: bluesky_world where
  "blueskyWorld =
     \<lparr> bs_resume = None, bs_refresh = Inl (Error ''unused''), bs_refreshErrorCode = [],
       bs_resume2 = None, bs_sessionAtMedia = True, bs_videoUpload = Inr True,
       bs_jobStatus = (\<lambda>i. Inr True), bs_videoDimensions = None, bs_download = Inr 0,
       bs_uploadBlob = None, bs_sessionAtPost = True, bs_detectFacets = None,
       bs_post = Inr (Some (JStr ''at://post'', JStr ''cid'')), bs_refreshSession = None,
       bs_newSession = None, bs_post2 = Inr (Some (JStr ''at://post'', JStr ''cid'')),
       bs_toFixed = (\<lambda>n. ''0.00'') \<rparr>"

text \<open>A video job that is accepted and never reports its blob.\<close>

definition stuckBluesky :: bluesky_world where
  "stuckBluesky = blueskyWorld \<lparr> bs_videoUpload := Inr False, bs_jobStatus := (\<lambda>i. Inr False) \<rparr>"

definition tiktokWorld :: tiktok_world where
  "tiktokWorld =
     \<lparr> tk_refresh = Inr demoToken, tk_download = Inl (Error ''unused''),
       tk_initVideo = (\<lambda>size chunk n. Inr (Some (JStr ''v1'', JStr ''https://upload''))),
       tk_putChunks = None, tk_publishVideo = None, tk_initPhoto = Inr (Some (JStr ''p1'')),
       tk_publishPhoto = None \<rparr>"

definition demoWorld :: world where
  "demoWorld =
     \<lparr> clock = 1000, clockSeconds = 1, jwt = demoJwt, w_twitter = twitterWorld,
       w_linkedin = linkedinCreated, w_bluesky = blueskyWorld, w_tiktok = tiktokWorld,
       w_devto = Inr unprocessable, w_threads = threadsWorld, w_discord = Inr noContent \<rparr>"

definition stuckWorld :: world where
  "stuckWorld = demoWorld \<lparr> w_bluesky := stuckBluesky \<rparr>"




definition aliceBluesky :: jsobj where
  "aliceBluesky = [''uid'' \<mapsto> JStr ''alice'', ''handle'' \<mapsto> JStr ''alice.bsky.social'',
                   ''did'' \<mapsto> JStr ''did:plc:alice'', ''accessJwt'' \<mapsto> JStr ''good'',
                   ''refreshJwt'' \<mapsto> JStr ''refresh'']"

definition blueskySys :: sys where
  "blueskySys =
     \<lparr> db = \<lparr> connections = [''alice:discord'' \<mapsto> [''webhookUrl'' \<mapsto> JStr ''https://hook''],
                               ''alice:bluesky'' \<mapsto> aliceBluesky],
              oauthStates = Map.empty \<rparr>,
       calls = [] \<rparr>"

definition videoPost :: post_options where
  "videoPost = \<lparr> postText = ''Hello'', mediaUrl = Some ''https://cdn/clip.mp4'',
                  mediaAltText = None, projectName = None, postData = None \<rparr>"

section \<open>Properties of the store\<close>

lemma platform_name_inj: "platform_name p = platform_name q \<Longrightarrow> p = q"
  by (cases p; cases q) simp_all

lemma platform_name_no_colon: "CHR '':'' \<notin> set (platform_name p)"
  by (cases p) simp_all

text \<open>Two (user, platform) pairs never share a key: a platform name has no colon.\<close>

lemma getKey_inj: "getKey u p = getKey u' p' \<longleftrightarrow> u = u' \<and> p = p'"
proof
  assume eq: "getKey u p = getKey u' p'"
  let ?P = "\<lambda>c. c \<noteq> CHR '':''"
  have r: "rev (getKey v q) = rev (platform_name q) @ CHR '':'' # rev v" for v q
    by (simp add: getKey_def)
  have t: "takeWhile ?P (rev (getKey v q)) = rev (platform_name q)" for v q
    unfolding r using platform_name_no_colon [of q]
    by (subst takeWhile_append2) auto
  from eq have "rev (platform_name p) = rev (platform_name p')"
    using t [of u p] t [of u' p'] by simp
  then have p: "p = p'" using platform_name_inj by simp
  with eq have "u = u'" by (simp add: getKey_def)
  with p show "u = u' \<and> p = p'" by simp
qed simp

text \<open>
  Claim C7. For every platform and user, \<open>disconnect\<close> followed by \<open>getConnection\<close>
  finds no connection; \<open>disconnect\<close> when no connection is stored leaves the store as it
  is, and so does a second \<open>disconnect\<close> in a row. (\<open>disconnect\<close> has no error outcome.)
\<close>

theorem disconnect_then_absent:
  "getConnection (disconnect p s userId) userId p = None
   \<and> (getConnection s userId p = None \<longrightarrow> disconnect p s userId = s)
   \<and> disconnect p (disconnect p s userId) userId = disconnect p s userId"
  by (simp add: getConnection_def disconnect_def deleteConnection_def fun_upd_idem)

theorem disconnect_then_absent_witness:
  "getConnection emptyStore ''alice'' Twitter = None
   \<and> disconnect Twitter emptyStore ''alice'' = emptyStore
   \<and> getConnection (disconnect Twitter aliceStore ''alice'') ''alice'' Twitter = None"
  using disconnect_then_absent [of Twitter emptyStore "''alice''"]
    disconnect_then_absent [of Twitter aliceStore "''alice''"]
  by (simp add: getConnection_def emptyStore_def)

text \<open>
  Claim C10. \<open>updateConnection\<close> for a key with no stored connection returns the store
  unchanged. For a key with a stored record, the record becomes the old one overridden by
  the update: a field the update names takes the update's value, every other field keeps
  its value; the records under all other keys (so those of all other users and
  platforms) and the OAuth states are preserved.
\<close>

theorem updateConnection_frame:
  "(getConnection s userId p = None \<longrightarrow> updateConnection s userId p updates = s)
   \<and> (\<forall>existing. getConnection s userId p = Some existing \<longrightarrow>
         getConnection (updateConnection s userId p updates) userId p = Some (existing ++ updates)
         \<and> (\<forall>f v. updates f = Some v \<longrightarrow> (existing ++ updates) f = Some v)
         \<and> (\<forall>f. updates f = None \<longrightarrow> (existing ++ updates) f = existing f))
   \<and> (\<forall>k. k \<noteq> getKey userId p \<longrightarrow>
         connections (updateConnection s userId p updates) k = connections s k)
   \<and> (\<forall>u' p'. (u', p') \<noteq> (userId, p) \<longrightarrow>
         getConnection (updateConnection s userId p updates) u' p' = getConnection s u' p')
   \<and> oauthStates (updateConnection s userId p updates) = oauthStates s"
  by (auto simp: getConnection_def updateConnection_def getKey_inj map_add_def
           split: option.splits)

theorem updateConnection_frame_witness:
  "getConnection emptyStore ''alice'' Twitter = None
   \<and> updateConnection emptyStore ''alice'' Twitter markInvalid = emptyStore
   \<and> getConnection aliceStore ''alice'' Twitter = Some aliceTwitter
   \<and> getConnection (updateConnection aliceStore ''alice'' Twitter markInvalid) ''alice'' Twitter
       = Some (aliceTwitter ++ markInvalid)
   \<and> markInvalid ''isValid'' = Some (JBool False)
   \<and> (aliceTwitter ++ markInvalid) ''isValid'' = Some (JBool False)
   \<and> markInvalid ''accessToken'' = None
   \<and> (aliceTwitter ++ markInvalid) ''accessToken'' = aliceTwitter ''accessToken''
   \<and> getConnection (updateConnection aliceStore ''alice'' Twitter markInvalid) ''bob'' Twitter
       = getConnection aliceStore ''bob'' Twitter"
proof -
  have absent: "getConnection emptyStore ''alice'' Twitter = None"
    by (simp add: getConnection_def emptyStore_def)
  have present: "getConnection aliceStore ''alice'' Twitter = Some aliceTwitter"
    by (simp add: getConnection_def aliceStore_def getKey_def)
  have other: "(''bob'', Twitter) \<noteq> (''alice'', Twitter)" by simp
  have named: "markInvalid ''isValid'' = Some (JBool False)"
    and unnamed: "markInvalid ''accessToken'' = None"
    by (simp_all add: markInvalid_def)
  note e = updateConnection_frame [of emptyStore "''alice''" Twitter markInvalid]
  note a = updateConnection_frame [of aliceStore "''alice''" Twitter markInvalid]
  note rec = a [THEN conjunct2, THEN conjunct1, rule_format, OF present]
  note oth = a [THEN conjunct2, THEN conjunct2, THEN conjunct2, THEN conjunct1, rule_format, OF other]
  show ?thesis
    using absent present named unnamed oth
      e [THEN conjunct1, rule_format, OF absent]
      rec [THEN conjunct1]
      rec [THEN conjunct2, THEN conjunct1, rule_format, OF named]
      rec [THEN conjunct2, THEN conjunct2, rule_format, OF unnamed]
    by (intro conjI)
qed

section \<open>Properties of the security primitives\<close>

text \<open>
  Claim C9. \<open>isTokenExpired\<close> answers for every input, and answers \<open>True\<close> for a null,
  undefined or empty token, for a token that \<open>jwtDecode\<close> cannot decode, for a decoded
  payload that is not an object, and for a payload whose \<open>exp\<close> is missing or not a
  number. For a decodable token with a numeric \<open>exp\<close> it answers \<open>True\<close> exactly when
  the current time in seconds is at least \<open>exp\<close>, where the current time in seconds is
  the number the code computes for it, \<open>nowInSeconds\<close>, and the comparison is the
  language's \<^verbatim>\<open>>=\<close>: for a finite \<open>exp\<close>, the order of the numbers.
\<close>

theorem isTokenExpired_fails_closed:
  "isTokenExpired jwtDecode nowInSeconds None
   \<and> isTokenExpired jwtDecode nowInSeconds (Some [])
   \<and> (jwtDecode t = DecodeThrows \<longrightarrow> isTokenExpired jwtDecode nowInSeconds (Some t))
   \<and> (jwtDecode t = DecodedNull \<or> jwtDecode t = DecodedOther \<longrightarrow>
        isTokenExpired jwtDecode nowInSeconds (Some t))
   \<and> (\<forall>payload. jwtDecode t = DecodedObject payload \<and> (\<forall>e. field payload ''exp'' \<noteq> JNum e) \<longrightarrow>
        isTokenExpired jwtDecode nowInSeconds (Some t))
   \<and> (\<forall>payload e. t \<noteq> [] \<and> jwtDecode t = DecodedObject payload \<and> field payload ''exp'' = JNum e \<longrightarrow>
        isTokenExpired jwtDecode nowInSeconds (Some t) = jsLe e (JsFinite nowInSeconds))
   \<and> (\<forall>payload x. t \<noteq> [] \<and> jwtDecode t = DecodedObject payload
          \<and> field payload ''exp'' = JNum (JsFinite x) \<longrightarrow>
        isTokenExpired jwtDecode nowInSeconds (Some t) = (nowInSeconds \<ge> x))"
  by (auto simp: isTokenExpired_def split: jwt_decoded.splits jsval.splits)

theorem isTokenExpired_fails_closed_witness:
  "demoJwt ''junk'' = DecodeThrows
   \<and> isTokenExpired demoJwt 1999 (Some ''junk'')
   \<and> ''good'' \<noteq> []
   \<and> demoJwt ''good'' = DecodedObject [''exp'' \<mapsto> JNum (JsFinite 2000)]
   \<and> field [''exp'' \<mapsto> JNum (JsFinite 2000)] ''exp'' = JNum (JsFinite 2000)
   \<and> \<not> isTokenExpired demoJwt (3999 / 2) (Some ''good'')
   \<and> isTokenExpired demoJwt 2000 (Some ''good'')"
proof -
  have junk: "demoJwt ''junk'' = DecodeThrows" by (simp add: demoJwt_def)
  have ne: "''good'' \<noteq> []" by simp
  have good: "demoJwt ''good'' = DecodedObject [''exp'' \<mapsto> JNum (JsFinite 2000)]"
    by (simp add: demoJwt_def)
  have f: "field [''exp'' \<mapsto> JNum (JsFinite 2000)] ''exp'' = JNum (JsFinite 2000)"
    by (simp add: field_def)
  have h: "''good'' \<noteq> [] \<and> demoJwt ''good'' = DecodedObject [''exp'' \<mapsto> JNum (JsFinite 2000)]
           \<and> field [''exp'' \<mapsto> JNum (JsFinite 2000)] ''exp'' = JNum (JsFinite 2000)"
    using ne good f by (intro conjI)
  have early: "\<not> (3999 / 2 :: rat) \<ge> 2000" and late: "(2000 :: rat) \<ge> 2000" by simp_all
  note j = isTokenExpired_fails_closed [of demoJwt 1999 "''junk''"]
  note before = isTokenExpired_fails_closed [of demoJwt "3999 / 2" "''good''"]
  note after = isTokenExpired_fails_closed [of demoJwt 2000 "''good''"]
  show ?thesis
    using junk ne good f
      j [THEN conjunct2, THEN conjunct2, THEN conjunct1, rule_format, OF junk]
      early [folded before [THEN conjunct2, THEN conjunct2, THEN conjunct2, THEN conjunct2,
                            THEN conjunct2, THEN conjunct2, rule_format, OF h]]
      late [folded after [THEN conjunct2, THEN conjunct2, THEN conjunct2, THEN conjunct2,
                          THEN conjunct2, THEN conjunct2, rule_format, OF h]]
    by (intro conjI)
qed

text \<open>
  Claim C6, at the failing input. \<open>generateId\<close> is a function of the clock reading alone,
  so two \<open>initiateAuth\<close> calls that read the same millisecond get the same state token:
  here Twitter's for alice and then LinkedIn's for bob, after which the one OAuth state
  stored under the token is bob's.
\<close>

theorem initiateAuth_same_instant_same_state:
  "(case twitter_initiateAuth demoConfig md5 authLink now ''alice'' redirectUri s of
      (r1, s1) \<Rightarrow>
        (case linkedin_initiateAuth demoConfig md5 authUrl now ''bob'' redirectUri s1 of
           (r2, s2) \<Rightarrow>
             (\<exists>url1 url2. r1 = Inr (url1, generateId md5 now)
                        \<and> r2 = Inr (url2, generateId md5 now))
             \<and> map_option uid (getOAuthState s1 (generateId md5 now)) = Some ''alice''
             \<and> map_option uid (getOAuthState s2 (generateId md5 now)) = Some ''bob''))"
  by (simp add: twitter_initiateAuth_def linkedin_initiateAuth_def demoConfig_def
        notConfigured_def Let_def saveOAuthState_def getOAuthState_def split: prod.splits)

section \<open>The chunk-sizing policy\<close>

text \<open>The integer quotient is the ceiling of the real one.\<close>

lemma ceil_div_real: "0 < b \<Longrightarrow> ceil_div a b = nat \<lceil>real a / real b\<rceil>"
proof -
  assume b: "0 < b"
  obtain q r where qr: "a = q * b + r" "r < b"
    by (metis b div_mult_mod_eq mod_less_divisor)
  have "(a + b - 1) div b = nat \<lceil>real a / real b\<rceil>"
  proof (cases "r = 0")
    case True
    have "(a + b - 1) div b = q"
      by (rule div_nat_eqI) (use True qr b in \<open>simp_all add: algebra_simps\<close>)
    moreover have "real a / real b = real q" using True qr b by simp
    ultimately show ?thesis by simp
  next
    case False
    have l: "(a + b - 1) div b = q + 1"
      by (rule div_nat_eqI) (use False qr b in \<open>simp_all add: algebra_simps\<close>)
    have "real a / real b = real q + real r / real b" using qr b by (simp add: field_simps)
    moreover have "0 < real r / real b" "real r / real b < 1" using False qr b by simp_all
    ultimately have "\<lceil>real a / real b\<rceil> = int q + 1" by (simp add: ceiling_eq_iff)
    with l show ?thesis by simp
  qed
  then show ?thesis by (simp add: ceil_div_def)
qed

lemma ceil_div_upper: "0 < b \<Longrightarrow> a \<le> ceil_div a b * b"
proof -
  assume b: "0 < b"
  have "a + b - 1 = (a + b - 1) div b * b + (a + b - 1) mod b" by simp
  moreover have "(a + b - 1) mod b \<le> b - 1" using b by (simp add: less_Suc_eq_le [symmetric])
  ultimately have "a + b - 1 \<le> (a + b - 1) div b * b + (b - 1)" by linarith
  then show ?thesis using b by (simp add: ceil_div_def)
qed

lemma ceil_div_lower: "0 < b \<Longrightarrow> 0 < a \<Longrightarrow> (ceil_div a b - 1) * b < a"
proof -
  assume b: "0 < b" and a: "0 < a"
  have "(a + b - 1) div b * b \<le> a + b - 1" by simp
  then have "(a + b - 1) div b * b - b \<le> a - 1" using a b by linarith
  then have "((a + b - 1) div b - 1) * b \<le> a - 1" by (simp add: diff_mult_distrib)
  then show ?thesis using a by (simp add: ceil_div_def)
qed

lemma ceil_div_le: "0 < b \<Longrightarrow> a \<le> n * b \<Longrightarrow> ceil_div a b \<le> n"
proof -
  assume b: "0 < b" and le: "a \<le> n * b"
  have "a + b - 1 < (n + 1) * b" using le b by simp
  then have "(a + b - 1) div b < n + 1" using b by (simp add: less_mult_imp_div_less)
  then show ?thesis by (simp add: ceil_div_def)
qed

lemma chunk_consts:
  "0 < MIN_CHUNK_SIZE_BYTES" "MIN_CHUNK_SIZE_BYTES \<le> DEFAULT_CHUNK_SIZE_BYTES"
  "DEFAULT_CHUNK_SIZE_BYTES \<le> MAX_CHUNK_SIZE_BYTES" "MIN_CHUNK_SIZE_BYTES \<le> MAX_CHUNK_SIZE_BYTES"
  by (simp_all add: MIN_CHUNK_SIZE_BYTES_def MAX_CHUNK_SIZE_BYTES_def DEFAULT_CHUNK_SIZE_BYTES_def)

text \<open>The three tiers of the policy.\<close>

lemma chunkPlan_cases:
  "chunkPlan S = (S, 1) \<and> S \<le> MAX_CHUNK_SIZE_BYTES
   \<or> chunkPlan S = (DEFAULT_CHUNK_SIZE_BYTES, ceil_div S DEFAULT_CHUNK_SIZE_BYTES)
       \<and> MAX_CHUNK_SIZE_BYTES < S \<and> ceil_div S DEFAULT_CHUNK_SIZE_BYTES \<le> 1000
   \<or> (\<exists>e. chunkPlan S = (e, ceil_div S e) \<and> MAX_CHUNK_SIZE_BYTES < S
         \<and> e = min (max (ceil_div S 1000) MIN_CHUNK_SIZE_BYTES) MAX_CHUNK_SIZE_BYTES)"
  using chunk_consts by (simp add: chunkPlan_def Let_def)

text \<open>
  Claim C2, amended. For every file size \<open>S > 0\<close> the policy computes a chunk size and a
  chunk count with \<open>count * size \<ge> S > (count - 1) * size\<close> and \<open>size \<le> 64 MiB\<close>. The
  chunk size is at least 5 MiB when the file is; a smaller file is one chunk of its own
  size. The chunk count is at most 1000 when \<open>S \<le> 1000 * 64 MiB\<close>. A file of at most
  64 MiB is exactly one chunk, of the size of the file.
\<close>

theorem chunk_policy:
  assumes "0 < S"
  shows "S \<le> snd (chunkPlan S) * fst (chunkPlan S)
    \<and> (snd (chunkPlan S) - 1) * fst (chunkPlan S) < S
    \<and> fst (chunkPlan S) \<le> MAX_CHUNK_SIZE_BYTES
    \<and> (MIN_CHUNK_SIZE_BYTES \<le> S \<longrightarrow> MIN_CHUNK_SIZE_BYTES \<le> fst (chunkPlan S))
    \<and> (S < MIN_CHUNK_SIZE_BYTES \<longrightarrow> fst (chunkPlan S) = S)
    \<and> (S \<le> 1000 * MAX_CHUNK_SIZE_BYTES \<longrightarrow> snd (chunkPlan S) \<le> 1000)
    \<and> (S \<le> MAX_CHUNK_SIZE_BYTES \<longrightarrow> chunkPlan S = (S, 1))"
proof -
  note c = chunk_consts
  consider
    (one) "chunkPlan S = (S, 1)" "S \<le> MAX_CHUNK_SIZE_BYTES"
  | (dflt) "chunkPlan S = (DEFAULT_CHUNK_SIZE_BYTES, ceil_div S DEFAULT_CHUNK_SIZE_BYTES)"
      "MAX_CHUNK_SIZE_BYTES < S" "ceil_div S DEFAULT_CHUNK_SIZE_BYTES \<le> 1000"
  | (grown) e where "chunkPlan S = (e, ceil_div S e)" "MAX_CHUNK_SIZE_BYTES < S"
      "e = min (max (ceil_div S 1000) MIN_CHUNK_SIZE_BYTES) MAX_CHUNK_SIZE_BYTES"
    using chunkPlan_cases [of S] by blast
  then show ?thesis
  proof cases
    case one
    then show ?thesis using assms c by auto
  next
    case dflt
    have "0 < DEFAULT_CHUNK_SIZE_BYTES" using c by simp
    then show ?thesis
      using dflt assms c ceil_div_upper [of DEFAULT_CHUNK_SIZE_BYTES S]
        ceil_div_lower [of DEFAULT_CHUNK_SIZE_BYTES S] by auto
  next
    case grown
    have e: "0 < e" "MIN_CHUNK_SIZE_BYTES \<le> e" "e \<le> MAX_CHUNK_SIZE_BYTES"
      using grown(3) c by auto
    have k: "S \<le> 1000 * ceil_div S 1000"
      using ceil_div_upper [of 1000 S] by (simp add: mult.commute)
    have cnt: "ceil_div S e \<le> 1000" if "S \<le> 1000 * MAX_CHUNK_SIZE_BYTES"
    proof (rule ceil_div_le [OF e(1)])
      have "MAX_CHUNK_SIZE_BYTES \<le> e \<or> ceil_div S 1000 \<le> e" using grown(3) by auto
      then show "S \<le> 1000 * e"
      proof
        assume "MAX_CHUNK_SIZE_BYTES \<le> e"
        then have "1000 * MAX_CHUNK_SIZE_BYTES \<le> 1000 * e" by simp
        with that show ?thesis by linarith
      next
        assume "ceil_div S 1000 \<le> e"
        then have "1000 * ceil_div S 1000 \<le> 1000 * e" by simp
        with k show ?thesis by linarith
      qed
    qed
    show ?thesis
      using grown(1,2) e cnt assms ceil_div_upper [OF e(1), of S] ceil_div_lower [OF e(1) assms]
      by auto
  qed
qed

lemma chunkPlan_100MiB: "chunkPlan 104857600 = (20971520, 5)"
  by (simp add: chunkPlan_def MIN_CHUNK_SIZE_BYTES_def MAX_CHUNK_SIZE_BYTES_def
        DEFAULT_CHUNK_SIZE_BYTES_def ceil_div_def Let_def)

theorem chunk_policy_witness:
  "(0::nat) < 104857600
   \<and> chunkPlan 104857600 = (20971520, 5)
   \<and> (104857600::nat) \<le> snd (chunkPlan 104857600) * fst (chunkPlan 104857600)
   \<and> (snd (chunkPlan 104857600) - 1) * fst (chunkPlan 104857600) < 104857600"
proof -
  have pos: "(0::nat) < 104857600" by simp
  note t = chunk_policy [OF pos]
  show ?thesis
    using pos chunkPlan_100MiB t [THEN conjunct1] t [THEN conjunct2, THEN conjunct1]
    by (intro conjI)
qed

text \<open>
  The claim as stated fails at both ends: a one-byte file gets a chunk size of one byte,
  below the minimum, and a file of 1000 * 64 MiB + 1 bytes gets 1001 chunks.
\<close>

theorem chunk_policy_counterexample:
  "\<not> MIN_CHUNK_SIZE_BYTES \<le> fst (chunkPlan 1)
   \<and> \<not> snd (chunkPlan (1000 * MAX_CHUNK_SIZE_BYTES + 1)) \<le> 1000"
  by (simp add: chunkPlan_def MIN_CHUNK_SIZE_BYTES_def MAX_CHUNK_SIZE_BYTES_def
        DEFAULT_CHUNK_SIZE_BYTES_def ceil_div_def Let_def)

section \<open>The dispatcher\<close>

text \<open>The polling loop ends only if some round's request does not answer "no blob yet".\<close>

lemma pollJobStatus_ends:
  assumes "pollJobStatus jobStatus i = Some z"
  shows "\<exists>j. jobStatus j \<noteq> Inr False"
proof (rule pollJobStatus.raw_induct
         [where P = "\<lambda>jobStatus i z. \<exists>j. jobStatus j \<noteq> Inr False", OF _ assms])
  fix poll :: "(nat \<Rightarrow> js_error + bool) \<Rightarrow> nat \<Rightarrow> (js_error + unit) option"
    and jobStatus i y
  assume IH: "\<And>jobStatus i y. poll jobStatus i = Some y \<Longrightarrow> \<exists>j. jobStatus j \<noteq> Inr False"
    and body: "(case jobStatus i of
                  Inl e \<Rightarrow> Some (Inl e)
                | Inr blob \<Rightarrow> if blob then Some (Inr ()) else poll jobStatus (Suc i)) = Some y"
  show "\<exists>j. jobStatus j \<noteq> Inr False"
  proof (cases "jobStatus i = Inr False")
    case True
    then have "poll jobStatus (Suc i) = Some y" using body by simp
    then show ?thesis by (rule IH)
  next
    case False
    then show ?thesis by blast
  qed
qed

lemma pollJobStatus_never:
  "(\<forall>j. jobStatus j = Inr False) \<Longrightarrow> pollJobStatus jobStatus i = None"
  using pollJobStatus_ends [of jobStatus i] by (cases "pollJobStatus jobStatus i") auto

text \<open>The loop does end once a round's request throws or reports the blob.\<close>

lemma pollJobStatus_returns:
  "jobStatus (i + k) \<noteq> Inr False \<Longrightarrow> pollJobStatus jobStatus i \<noteq> None"
proof (induction k arbitrary: i)
  case 0
  then show ?case
    by (subst pollJobStatus.simps) (auto split: sum.splits)
next
  case (Suc k)
  show ?case
  proof (cases "jobStatus i = Inr False")
    case True
    have "pollJobStatus jobStatus (Suc i) \<noteq> None" using Suc.IH [of "Suc i"] Suc.prems by simp
    then show ?thesis using True by (subst pollJobStatus.simps) simp
  next
    case False
    then show ?thesis by (subst pollJobStatus.simps) (auto split: sum.splits)
  qed
qed

lemma those_map:
  "those (map f ps) = Some ys
     \<longleftrightarrow> length ys = length ps \<and> (\<forall>i<length ps. f (ps ! i) = Some (ys ! i))"
proof (induction ps arbitrary: ys)
  case Nil
  then show ?case by auto
next
  case (Cons p ps)
  show ?case
  proof (cases "f p")
    case None
    then show ?thesis by auto
  next
    case (Some y)
    show ?thesis
    proof (cases ys)
      case Nil
      then show ?thesis using Some by (auto split: option.splits)
    next
      case (Cons z zs)
      then show ?thesis
        using Some Cons.IH [of zs] by (auto simp: nth_Cons split: option.splits nat.splits)
    qed
  qed
qed

text \<open>
  \<open>postToAll\<close> returns exactly when every \<open>postToPlatform\<close> it started has settled,
  and then entry \<open>i\<close> is the settled \<open>postToPlatform\<close> of platform \<open>i\<close>.
\<close>

lemma postToAll_settled:
  "postToAll handlers userId options (Some ps) s = Some rs
     \<longleftrightarrow> length rs = length ps
         \<and> (\<forall>i<length ps. \<exists>out s'.
                postToPlatform handlers (ps ! i) userId options s = Some (out, s')
                \<and> rs ! i = settledEntry (ps ! i) out)"
  (is "?L \<longleftrightarrow> ?R")
proof
  let ?f = "\<lambda>p. map_option fst (postToPlatform handlers p userId options s)"
  assume ?L
  then obtain outs where o: "those (map ?f ps) = Some outs"
    and rs: "rs = map (\<lambda>(p, out). settledEntry p out) (zip ps outs)"
    by (auto simp: postToAll_def Let_def)
  from o have len: "length outs = length ps"
    and each: "\<forall>i<length ps. ?f (ps ! i) = Some (outs ! i)"
    by (simp_all add: those_map)
  show ?R
  proof (intro conjI allI impI)
    show "length rs = length ps" using rs len by simp
  next
    fix i assume i: "i < length ps"
    with each obtain s' where "postToPlatform handlers (ps ! i) userId options s = Some (outs ! i, s')"
      by fastforce
    moreover have "rs ! i = settledEntry (ps ! i) (outs ! i)" using rs len i by simp
    ultimately show "\<exists>out s'. postToPlatform handlers (ps ! i) userId options s = Some (out, s')
                       \<and> rs ! i = settledEntry (ps ! i) out"
      by blast
  qed
next
  let ?f = "\<lambda>p. map_option fst (postToPlatform handlers p userId options s)"
  assume r: ?R
  let ?outs = "map (\<lambda>p. fst (the (postToPlatform handlers p userId options s))) ps"
  have "those (map ?f ps) = Some ?outs"
    unfolding those_map using r by fastforce
  moreover have "map (\<lambda>(p, out). settledEntry p out) (zip ps ?outs) = rs"
    using r by (fastforce intro: nth_equalityI)
  ultimately show ?L by (simp add: postToAll_def Let_def)
qed

lemma postToAll_pending:
  "p \<in> set ps \<Longrightarrow> postToPlatform handlers p userId options s = None \<Longrightarrow>
   postToAll handlers userId options (Some ps) s = None"
proof (rule ccontr)
  assume p: "p \<in> set ps" and n: "postToPlatform handlers p userId options s = None"
    and "postToAll handlers userId options (Some ps) s \<noteq> None"
  then obtain rs where "postToAll handlers userId options (Some ps) s = Some rs" by auto
  then have "\<forall>i<length ps. postToPlatform handlers (ps ! i) userId options s \<noteq> None"
    unfolding postToAll_settled by fastforce
  with p n show False by (auto simp: in_set_conv_nth)
qed

lemma postToAll_returns:
  assumes "\<forall>p\<in>set ps. postToPlatform handlers p userId options s \<noteq> None"
  shows "\<exists>rs. postToAll handlers userId options (Some ps) s = Some rs"
proof -
  let ?rs = "map (\<lambda>p. settledEntry p (fst (the (postToPlatform handlers p userId options s)))) ps"
  have "postToAll handlers userId options (Some ps) s = Some ?rs"
    unfolding postToAll_settled using assms by fastforce
  then show ?thesis by blast
qed

lemma postToPlatform_pending:
  "postToPlatform handlers p userId options s = None
     \<longleftrightarrow> (\<exists>h connection. handlers p = Some h \<and> getConnection (db s) userId p = Some connection
            \<and> h userId connection options s = None)"
  by (auto simp: postToPlatform_def split: option.splits sum.splits prod.splits)

text \<open>
  Claim C1, amended. For every user, post options and requested platform list, provided
  every handler invocation settles, \<open>postToAll\<close> returns a list with one entry per
  requested platform, in request order: entry \<open>i\<close> is the settled \<open>postToPlatform\<close> of
  platform \<open>i\<close>. Where the handler throws \<open>e\<close>, the entry is a result for that platform
  with \<open>success = False\<close> and a non-empty error message; where it returns a result, the
  entry is that result; where the platform has no handler or the user no connection, the
  entry is a failure for that platform. An entry depends on the handler of its own
  platform only, so a throwing handler leaves the others as they would have been. And
  \<open>postToAll\<close> has no error outcome; but when the invocation of some requested
  platform's handler never settles, \<open>postToAll\<close> does not return.
\<close>

theorem postToAll_one_entry_per_platform:
  "((\<forall>p\<in>set ps. \<forall>h connection.
        handlers p = Some h \<and> getConnection (db s) userId p = Some connection \<longrightarrow>
        h userId connection options s \<noteq> None) \<longrightarrow>
    (\<exists>rs. postToAll handlers userId options (Some ps) s = Some rs
       \<and> length rs = length ps
       \<and> (\<forall>i<length ps.
            (\<exists>out s'. postToPlatform handlers (ps ! i) userId options s = Some (out, s')
                 \<and> rs ! i = settledEntry (ps ! i) out)
            \<and> (\<forall>h connection e s'.
                  handlers (ps ! i) = Some h \<and> getConnection (db s) userId (ps ! i) = Some connection
                  \<and> h userId connection options s = Some (Inl e, s') \<longrightarrow>
                  rs ! i = \<lparr> platform = Some (platform_name (ps ! i)), success = False,
                             result = None,
                             error = Some (orElse (message e) ''Unknown error occurred'') \<rparr>
                  \<and> orElse (message e) ''Unknown error occurred'' \<noteq> [])
            \<and> (\<forall>h connection r s'.
                  handlers (ps ! i) = Some h \<and> getConnection (db s) userId (ps ! i) = Some connection
                  \<and> h userId connection options s = Some (Inr r, s') \<longrightarrow>
                  rs ! i = r)
            \<and> (handlers (ps ! i) = None \<or> getConnection (db s) userId (ps ! i) = None \<longrightarrow>
                  platform (rs ! i) = Some (platform_name (ps ! i))
                  \<and> \<not> success (rs ! i)
                  \<and> result (rs ! i) = None
                  \<and> (\<exists>msg. msg \<noteq> [] \<and> error (rs ! i) = Some msg))
            \<and> (\<forall>handlers' rs'.
                  handlers' (ps ! i) = handlers (ps ! i)
                  \<and> postToAll handlers' userId options (Some ps) s = Some rs' \<longrightarrow>
                  rs' ! i = rs ! i))))
   \<and> ((\<exists>p\<in>set ps. \<exists>h connection.
          handlers p = Some h \<and> getConnection (db s) userId p = Some connection
          \<and> h userId connection options s = None) \<longrightarrow>
        postToAll handlers userId options (Some ps) s = None)"
proof (intro conjI impI)
  assume settles: "\<forall>p\<in>set ps. \<forall>h connection.
        handlers p = Some h \<and> getConnection (db s) userId p = Some connection \<longrightarrow>
        h userId connection options s \<noteq> None"
  then have "\<forall>p\<in>set ps. postToPlatform handlers p userId options s \<noteq> None"
    by (simp add: postToPlatform_pending)
  then obtain rs where rs: "postToAll handlers userId options (Some ps) s = Some rs"
    using postToAll_returns by blast
  note each = rs [unfolded postToAll_settled, THEN conjunct2, rule_format]
  have own: "\<forall>i<length ps.
            (\<exists>out s'. postToPlatform handlers (ps ! i) userId options s = Some (out, s')
                 \<and> rs ! i = settledEntry (ps ! i) out)
            \<and> (\<forall>h connection e s'.
                  handlers (ps ! i) = Some h \<and> getConnection (db s) userId (ps ! i) = Some connection
                  \<and> h userId connection options s = Some (Inl e, s') \<longrightarrow>
                  rs ! i = \<lparr> platform = Some (platform_name (ps ! i)), success = False,
                             result = None,
                             error = Some (orElse (message e) ''Unknown error occurred'') \<rparr>
                  \<and> orElse (message e) ''Unknown error occurred'' \<noteq> [])
            \<and> (\<forall>h connection r s'.
                  handlers (ps ! i) = Some h \<and> getConnection (db s) userId (ps ! i) = Some connection
                  \<and> h userId connection options s = Some (Inr r, s') \<longrightarrow>
                  rs ! i = r)
            \<and> (handlers (ps ! i) = None \<or> getConnection (db s) userId (ps ! i) = None \<longrightarrow>
                  platform (rs ! i) = Some (platform_name (ps ! i))
                  \<and> \<not> success (rs ! i)
                  \<and> result (rs ! i) = None
                  \<and> (\<exists>msg. msg \<noteq> [] \<and> error (rs ! i) = Some msg))
            \<and> (\<forall>handlers' rs'.
                  handlers' (ps ! i) = handlers (ps ! i)
                  \<and> postToAll handlers' userId options (Some ps) s = Some rs' \<longrightarrow>
                  rs' ! i = rs ! i)"
  proof (intro allI impI)
    fix i assume i: "i < length ps"
    obtain out s' where
      out: "postToPlatform handlers (ps ! i) userId options s = Some (out, s')"
      and e: "rs ! i = settledEntry (ps ! i) out"
      using each [OF i] by blast
    have same: "rs' ! i = rs ! i"
      if h: "handlers' (ps ! i) = handlers (ps ! i)"
        and r': "postToAll handlers' userId options (Some ps) s = Some rs'" for handlers' rs'
    proof -
      have "postToPlatform handlers' (ps ! i) userId options s
              = postToPlatform handlers (ps ! i) userId options s"
        using h by (simp add: postToPlatform_def)
      then show ?thesis
        using r' [unfolded postToAll_settled, THEN conjunct2, rule_format, OF i] out e by auto
    qed
    show "(\<exists>out s'. postToPlatform handlers (ps ! i) userId options s = Some (out, s')
                 \<and> rs ! i = settledEntry (ps ! i) out)
            \<and> (\<forall>h connection e s'.
                  handlers (ps ! i) = Some h \<and> getConnection (db s) userId (ps ! i) = Some connection
                  \<and> h userId connection options s = Some (Inl e, s') \<longrightarrow>
                  rs ! i = \<lparr> platform = Some (platform_name (ps ! i)), success = False,
                             result = None,
                             error = Some (orElse (message e) ''Unknown error occurred'') \<rparr>
                  \<and> orElse (message e) ''Unknown error occurred'' \<noteq> [])
            \<and> (\<forall>h connection r s'.
                  handlers (ps ! i) = Some h \<and> getConnection (db s) userId (ps ! i) = Some connection
                  \<and> h userId connection options s = Some (Inr r, s') \<longrightarrow>
                  rs ! i = r)
            \<and> (handlers (ps ! i) = None \<or> getConnection (db s) userId (ps ! i) = None \<longrightarrow>
                  platform (rs ! i) = Some (platform_name (ps ! i))
                  \<and> \<not> success (rs ! i)
                  \<and> result (rs ! i) = None
                  \<and> (\<exists>msg. msg \<noteq> [] \<and> error (rs ! i) = Some msg))
            \<and> (\<forall>handlers' rs'.
                  handlers' (ps ! i) = handlers (ps ! i)
                  \<and> postToAll handlers' userId options (Some ps) s = Some rs' \<longrightarrow>
                  rs' ! i = rs ! i)"
    proof (intro conjI)
      show "\<exists>out s'. postToPlatform handlers (ps ! i) userId options s = Some (out, s')
                 \<and> rs ! i = settledEntry (ps ! i) out"
        using out e by blast
      show "\<forall>h connection e s'.
                  handlers (ps ! i) = Some h \<and> getConnection (db s) userId (ps ! i) = Some connection
                  \<and> h userId connection options s = Some (Inl e, s') \<longrightarrow>
                  rs ! i = \<lparr> platform = Some (platform_name (ps ! i)), success = False,
                             result = None,
                             error = Some (orElse (message e) ''Unknown error occurred'') \<rparr>
                  \<and> orElse (message e) ''Unknown error occurred'' \<noteq> []"
        using out e
        by (auto simp: postToPlatform_def settledEntry_def failure_def orElse_def)
      show "\<forall>h connection r s'.
                  handlers (ps ! i) = Some h \<and> getConnection (db s) userId (ps ! i) = Some connection
                  \<and> h userId connection options s = Some (Inr r, s') \<longrightarrow>
                  rs ! i = r"
        using out e by (auto simp: postToPlatform_def settledEntry_def)
      show "handlers (ps ! i) = None \<or> getConnection (db s) userId (ps ! i) = None \<longrightarrow>
                  platform (rs ! i) = Some (platform_name (ps ! i))
                  \<and> \<not> success (rs ! i)
                  \<and> result (rs ! i) = None
                  \<and> (\<exists>msg. msg \<noteq> [] \<and> error (rs ! i) = Some msg)"
        using out e
        by (auto simp: postToPlatform_def settledEntry_def failure_def orElse_def
                 split: option.splits)
      show "\<forall>handlers' rs'.
                  handlers' (ps ! i) = handlers (ps ! i)
                  \<and> postToAll handlers' userId options (Some ps) s = Some rs' \<longrightarrow>
                  rs' ! i = rs ! i"
        using same by blast
    qed
  qed
  have len: "length rs = length ps" using rs [unfolded postToAll_settled] by simp
  from rs len own
  show "\<exists>rs. postToAll handlers userId options (Some ps) s = Some rs
       \<and> length rs = length ps
       \<and> (\<forall>i<length ps.
            (\<exists>out s'. postToPlatform handlers (ps ! i) userId options s = Some (out, s')
                 \<and> rs ! i = settledEntry (ps ! i) out)
            \<and> (\<forall>h connection e s'.
                  handlers (ps ! i) = Some h \<and> getConnection (db s) userId (ps ! i) = Some connection
                  \<and> h userId connection options s = Some (Inl e, s') \<longrightarrow>
                  rs ! i = \<lparr> platform = Some (platform_name (ps ! i)), success = False,
                             result = None,
                             error = Some (orElse (message e) ''Unknown error occurred'') \<rparr>
                  \<and> orElse (message e) ''Unknown error occurred'' \<noteq> [])
            \<and> (\<forall>h connection r s'.
                  handlers (ps ! i) = Some h \<and> getConnection (db s) userId (ps ! i) = Some connection
                  \<and> h userId connection options s = Some (Inr r, s') \<longrightarrow>
                  rs ! i = r)
            \<and> (handlers (ps ! i) = None \<or> getConnection (db s) userId (ps ! i) = None \<longrightarrow>
                  platform (rs ! i) = Some (platform_name (ps ! i))
                  \<and> \<not> success (rs ! i)
                  \<and> result (rs ! i) = None
                  \<and> (\<exists>msg. msg \<noteq> [] \<and> error (rs ! i) = Some msg))
            \<and> (\<forall>handlers' rs'.
                  handlers' (ps ! i) = handlers (ps ! i)
                  \<and> postToAll handlers' userId options (Some ps) s = Some rs' \<longrightarrow>
                  rs' ! i = rs ! i))"
    by (intro exI [of _ rs] conjI)
next
  assume "\<exists>p\<in>set ps. \<exists>h connection.
          handlers p = Some h \<and> getConnection (db s) userId p = Some connection
          \<and> h userId connection options s = None"
  then obtain p where "p \<in> set ps" "postToPlatform handlers p userId options s = None"
    unfolding postToPlatform_pending by blast
  then show "postToAll handlers userId options (Some ps) s = None"
    by (rule postToAll_pending)
qed

lemma ex_forward: "\<exists>x. P x \<Longrightarrow> (\<And>x. P x \<Longrightarrow> Q x) \<Longrightarrow> \<exists>x. Q x"
  by blast

lemma threeHandlers_settle:
  "\<forall>p\<in>set [Discord, GitHub, Devto]. \<forall>h connection.
     threeHandlers p = Some h \<and> getConnection (db threeStore) ''alice'' p = Some connection \<longrightarrow>
     h ''alice'' connection helloPost threeStore \<noteq> None"
  by (auto simp: threeHandlers_def settling_def)

lemma threeHandlers_github:
  "threeHandlers ([Discord, GitHub, Devto] ! 1) = Some (settling github_sendPost)
   \<and> getConnection (db threeStore) ''alice'' ([Discord, GitHub, Devto] ! 1)
       = Some [''uid'' \<mapsto> JStr ''alice'']
   \<and> settling github_sendPost ''alice'' [''uid'' \<mapsto> JStr ''alice''] helloPost threeStore
       = Some (Inl (Error ''Missing GitHub token''), threeStore)"
  by (simp add: threeHandlers_def threeStore_def getConnection_def getKey_def
        github_sendPost_def settling_def field_def)

lemma threeHandlers_settled:
  "postToPlatform threeHandlers Discord ''alice'' helloPost threeStore \<noteq> None
   \<and> postToPlatform threeHandlers GitHub ''alice'' helloPost threeStore \<noteq> None
   \<and> postToPlatform threeHandlers Devto ''alice'' helloPost threeStore \<noteq> None"
  using threeHandlers_settle by (simp add: postToPlatform_pending)

theorem postToAll_one_entry_per_platform_witness:
  "postToPlatform threeHandlers Discord ''alice'' helloPost threeStore \<noteq> None
   \<and> postToPlatform threeHandlers GitHub ''alice'' helloPost threeStore \<noteq> None
   \<and> postToPlatform threeHandlers Devto ''alice'' helloPost threeStore \<noteq> None
   \<and> (1::nat) < length [Discord, GitHub, Devto]
   \<and> (\<exists>rs. postToAll threeHandlers ''alice'' helloPost (Some [Discord, GitHub, Devto]) threeStore
              = Some rs
          \<and> length rs = length [Discord, GitHub, Devto]
          \<and> rs ! 1 = \<lparr> platform = Some (platform_name ([Discord, GitHub, Devto] ! 1)),
                          success = False, result = None,
                          error = Some (orElse (message (Error ''Missing GitHub token''))
                                          ''Unknown error occurred'') \<rparr>)"
proof -
  have i: "(1::nat) < length [Discord, GitHub, Devto]" by simp
  note t = postToAll_one_entry_per_platform
             [of "[Discord, GitHub, Devto]" threeHandlers threeStore "''alice''" helloPost]
  have "\<exists>rs. postToAll threeHandlers ''alice'' helloPost (Some [Discord, GitHub, Devto]) threeStore
              = Some rs
          \<and> length rs = length [Discord, GitHub, Devto]
          \<and> rs ! 1 = \<lparr> platform = Some (platform_name ([Discord, GitHub, Devto] ! 1)),
                          success = False, result = None,
                          error = Some (orElse (message (Error ''Missing GitHub token''))
                                          ''Unknown error occurred'') \<rparr>"
    apply (rule ex_forward [OF t [THEN conjunct1, THEN mp, OF threeHandlers_settle]])
    subgoal premises all for rs
      using all [THEN conjunct1] all [THEN conjunct2, THEN conjunct1]
        all [THEN conjunct2, THEN conjunct2, rule_format, OF i, THEN conjunct2, THEN conjunct1,
             rule_format, OF threeHandlers_github, THEN conjunct1]
      by (intro conjI)
    done
  with threeHandlers_settled [THEN conjunct1] threeHandlers_settled [THEN conjunct2, THEN conjunct1]
    threeHandlers_settled [THEN conjunct2, THEN conjunct2] i
  show ?thesis by (intro conjI)
qed

lemma clip_is_video: "isVideoFile ''https://cdn/clip.mp4''"
  by code_simp

lemma stuck_upload: "uploadVideo stuckBluesky = None"
  by (simp add: uploadVideo_def stuckBluesky_def pollJobStatus_never)

lemma stuck_handler:
  "bluesky_sendPost demoJwt stuckBluesky 1000 1 ''alice'' aliceBluesky videoPost blueskySys = None"
proof -
  have "bluesky_media stuckBluesky videoPost blueskySys = None"
    using clip_is_video
    by (simp add: bluesky_media_def givenUrl_def videoPost_def stuck_upload)
       (simp add: stuckBluesky_def blueskyWorld_def)
  moreover have "bluesky_session demoJwt stuckBluesky 1000 1 ''alice'' aliceBluesky blueskySys
                   = (Continue (aliceBluesky, False), blueskySys)"
    by (simp add: bluesky_session_def stuckBluesky_def blueskyWorld_def)
  ultimately show ?thesis
    by (simp add: bluesky_sendPost_def) (simp add: aliceBluesky_def field_def)
qed

text \<open>
  The claim as stated fails when a handler does not settle. Alice posts a video to Discord
  and Bluesky; Bluesky's video service accepts the upload, and every request for the job
  status is answered, never with the blob. The polling loop of \<^verbatim>\<open>uploadVideo\<close> has no
  other exit, the Bluesky handler never settles, and \<open>postToAll\<close> returns no array, not
  even the entry for Discord.
\<close>

theorem postToAll_one_entry_per_platform_counterexample:
  "(\<forall>i. bs_jobStatus (w_bluesky stuckWorld) i = Inr False)
   \<and> postToAll (initializeHandlers discordAndBluesky stuckWorld) ''alice'' videoPost
         (Some [Discord, Bluesky]) blueskySys = None"
proof -
  have "postToPlatform (initializeHandlers discordAndBluesky stuckWorld) Bluesky ''alice''
          videoPost blueskySys = None"
    using stuck_handler
    by (simp add: postToPlatform_def initializeHandlers_def discordAndBluesky_def
          stuckWorld_def demoWorld_def getConnection_def getKey_def blueskySys_def)
  then have "postToAll (initializeHandlers discordAndBluesky stuckWorld) ''alice'' videoPost
               (Some [Discord, Bluesky]) blueskySys = None"
    by (rule postToAll_pending [rotated]) simp
  then show ?thesis by (simp add: stuckWorld_def stuckBluesky_def)
qed

section \<open>OAuth callbacks\<close>

lemma twitter_callback_consumes:
  "\<not> notConfigured config \<Longrightarrow>
   getOAuthState (snd (twitter_handleCallback config net now c st r s)) st = None"
  by (auto simp: twitter_handleCallback_def getOAuthState_def deleteOAuthState_def
        saveConnection_def Let_def split: option.splits sum.splits prod.splits)

lemma linkedin_callback_consumes:
  "\<not> notConfigured config \<Longrightarrow>
   getOAuthState (snd (linkedin_handleCallback config net now c st r s)) st = None"
  by (auto simp: linkedin_handleCallback_def getOAuthState_def deleteOAuthState_def
        saveConnection_def Let_def split: option.splits sum.splits prod.splits)

lemma tiktok_callback_consumes:
  "\<not> notConfigured config \<Longrightarrow>
   getOAuthState (snd (tiktok_handleCallback config net now c st r s)) st = None"
  by (auto simp: tiktok_handleCallback_def getOAuthState_def deleteOAuthState_def
        saveConnection_def Let_def split: option.splits sum.splits prod.splits)

lemma threads_callback_consumes:
  "\<not> notConfigured config \<Longrightarrow>
   getOAuthState (snd (threads_handleCallback config net now c st r s)) st = None"
  by (auto simp: threads_handleCallback_def getOAuthState_def deleteOAuthState_def
        saveConnection_def Let_def split: option.splits sum.splits prod.splits if_splits)

lemma twitter_callback_absent:
  "\<not> notConfigured config \<Longrightarrow> getOAuthState s st = None \<Longrightarrow>
   twitter_handleCallback config net now c st r s
     = (Inl (Error ''Invalid or expired state parameter''), s)"
  by (simp add: twitter_handleCallback_def)

lemma linkedin_callback_absent:
  "\<not> notConfigured config \<Longrightarrow> getOAuthState s st = None \<Longrightarrow>
   linkedin_handleCallback config net now c st r s
     = (Inl (Error ''Invalid or expired state parameter''), s)"
  by (simp add: linkedin_handleCallback_def)

lemma tiktok_callback_absent:
  "\<not> notConfigured config \<Longrightarrow> getOAuthState s st = None \<Longrightarrow>
   tiktok_handleCallback config net now c st r s
     = (Inl (Error ''Invalid or expired state parameter''), s)"
  by (simp add: tiktok_handleCallback_def)

lemma threads_callback_absent:
  "\<not> notConfigured config \<Longrightarrow> getOAuthState s st = None \<Longrightarrow>
   threads_handleCallback config net now c st r s
     = (Inl (Error ''Invalid or expired state parameter''), s)"
  by (simp add: threads_handleCallback_def)

text \<open>
  Claim C3, amended. For every OAuth connection provider (Twitter, LinkedIn, TikTok,
  Threads) whose client credentials are configured: after a \<open>handleCallback\<close> with a
  state token, however it ended, a second \<open>handleCallback\<close> with the same token fails
  with the error "Invalid or expired state parameter" and leaves the whole store,
  connections included, as the first left it. So the two calls succeed at most once.
\<close>

theorem handleCallback_single_use:
  assumes "\<not> notConfigured config"
  shows "twitter_handleCallback config net2 now2 code2 st redirect2
           (snd (twitter_handleCallback config net1 now1 code1 st redirect1 s))
         = (Inl (Error ''Invalid or expired state parameter''),
            snd (twitter_handleCallback config net1 now1 code1 st redirect1 s))
       \<and> linkedin_handleCallback config net2 now2 code2 st redirect2
           (snd (linkedin_handleCallback config net1 now1 code1 st redirect1 s))
         = (Inl (Error ''Invalid or expired state parameter''),
            snd (linkedin_handleCallback config net1 now1 code1 st redirect1 s))
       \<and> tiktok_handleCallback config net2 now2 code2 st redirect2
           (snd (tiktok_handleCallback config net1 now1 code1 st redirect1 s))
         = (Inl (Error ''Invalid or expired state parameter''),
            snd (tiktok_handleCallback config net1 now1 code1 st redirect1 s))
       \<and> threads_handleCallback config tnet2 now2 code2 st redirect2
           (snd (threads_handleCallback config tnet1 now1 code1 st redirect1 s))
         = (Inl (Error ''Invalid or expired state parameter''),
            snd (threads_handleCallback config tnet1 now1 code1 st redirect1 s))"
  using assms
  by (simp add: twitter_callback_absent twitter_callback_consumes
        linkedin_callback_absent linkedin_callback_consumes
        tiktok_callback_absent tiktok_callback_consumes
        threads_callback_absent threads_callback_consumes)

lemma demoConfig_configured: "\<not> notConfigured demoConfig"
  by (simp add: notConfigured_def demoConfig_def)

lemma first_callback_succeeds:
  "\<exists>connection.
     fst (twitter_handleCallback demoConfig demoNet 1000 ''code'' ''abc'' ''https://app/cb''
            pendingStore) = Inr connection"
  by (simp add: twitter_handleCallback_def demoConfig_def notConfigured_def demoNet_def
        pendingStore_def getOAuthState_def Let_def)

theorem handleCallback_single_use_witness:
  "\<not> notConfigured demoConfig
   \<and> (\<exists>connection.
        fst (twitter_handleCallback demoConfig demoNet 1000 ''code'' ''abc'' ''https://app/cb''
               pendingStore) = Inr connection)
   \<and> twitter_handleCallback demoConfig demoNet 2000 ''code'' ''abc'' ''https://app/cb''
        (snd (twitter_handleCallback demoConfig demoNet 1000 ''code'' ''abc'' ''https://app/cb''
                pendingStore))
       = (Inl (Error ''Invalid or expired state parameter''),
          snd (twitter_handleCallback demoConfig demoNet 1000 ''code'' ''abc'' ''https://app/cb''
                 pendingStore))"
  using demoConfig_configured first_callback_succeeds
    handleCallback_single_use [OF demoConfig_configured, THEN conjunct1]
  by (intro conjI)

text \<open>
  The claim as stated fails for a provider with an empty client id: the guard on the
  credentials comes before the lookup of the state, so the second call, like the first,
  fails with the configuration error, not with "Invalid or expired state parameter".
\<close>

theorem handleCallback_single_use_counterexample:
  "fst (twitter_handleCallback emptyIdConfig demoNet 2000 ''code'' ''abc'' ''https://app/cb''
          (snd (twitter_handleCallback emptyIdConfig demoNet 1000 ''code'' ''abc''
                  ''https://app/cb'' pendingStore)))
     = Inl (Error ''Twitter Client ID/Secret not configured'')
   \<and> Error ''Twitter Client ID/Secret not configured''
       \<noteq> Error ''Invalid or expired state parameter''"
  by (simp add: twitter_handleCallback_def emptyIdConfig_def notConfigured_def Error_def)

section \<open>The call log of a handler\<close>

lemma calls_writeBack [simp]: "calls (writeBack s u p upd) = calls s"
  by (simp add: writeBack_def)

lemma calls_logCall [simp]: "calls (logCall c s) = calls s @ [c]"
  by (simp add: logCall_def)

lemma twitter_refreshToken_calls:
  "calls (snd (twitter_refreshToken config net now c s)) = calls s @ [CallRefreshToken]"
  by (simp add: twitter_refreshToken_def Let_def split: sum.splits)

lemma linkedin_refreshToken_calls:
  "calls (snd (linkedin_refreshToken config net now c s)) = calls s @ [CallRefreshToken]"
  by (simp add: linkedin_refreshToken_def Let_def split: sum.splits)

lemma tiktok_refreshToken_calls:
  "calls (snd (tiktok_refreshToken config net now c s)) = calls s @ [CallRefreshToken]"
  by (simp add: tiktok_refreshToken_def Let_def split: sum.splits)

lemma twitter_retry_calls: "prefix (calls s) (calls (snd (twitter_retry config w now u c s)))"
proof -
  obtain o1 s1 where r: "twitter_refreshToken config (tw_refresh2 w) now c s = (o1, s1)"
    by (cases "twitter_refreshToken config (tw_refresh2 w) now c s")
  have "calls s1 = calls s @ [CallRefreshToken]"
    using twitter_refreshToken_calls [of config "tw_refresh2 w" now c s] r by simp
  then show ?thesis
    by (auto simp: twitter_retry_def r Let_def prefix_def split: sum.splits option.splits)
qed

lemma twitter_catch_calls:
  "prefix (calls s) (calls (snd (twitter_catch config w now nr u c e s)))"
  using twitter_retry_calls [of s config w now u c] by (simp add: twitter_catch_def)

lemma twitter_publish_calls:
  "prefix (calls s) (calls (snd (twitter_publish config w now nr u c s)))"
proof -
  have "prefix (calls s) (calls t) \<Longrightarrow> prefix (calls s) (calls (snd (twitter_catch config w now nr u c e t)))"
    for t e
    using twitter_catch_calls [of t config w now nr u c e] by (rule prefix_order.trans [rotated])
  then show ?thesis
    by (auto simp: twitter_publish_def Let_def split: sum.splits option.splits)
qed

lemma twitter_media_calls: "prefix (calls s) (calls (snd (twitter_media w options s)))"
  by (auto simp: twitter_media_def split: option.splits sum.splits)

lemma twitter_refresh_first:
  "twitter_needsRefresh (tw_toNumber w) now connection \<Longrightarrow>
   calls (snd (twitter_refresh config w now u connection s)) = calls s @ [CallRefreshToken]"
proof -
  assume n: "twitter_needsRefresh (tw_toNumber w) now connection"
  obtain o1 s1 where r: "twitter_refreshToken config (tw_refresh w) now connection s = (o1, s1)"
    by (cases "twitter_refreshToken config (tw_refresh w) now connection s")
  have "calls s1 = calls s @ [CallRefreshToken]"
    using twitter_refreshToken_calls [of config "tw_refresh w" now connection s] r by simp
  then show ?thesis
    using n by (auto simp: twitter_refresh_def r split: sum.splits)
qed

lemma twitter_sendPost_after_refresh:
  "truthy (field connection ''accessToken'') \<Longrightarrow>
   prefix (calls (snd (twitter_refresh config w now u connection s)))
          (calls (snd (twitter_sendPost config w now u connection options s)))"
proof -
  assume a: "truthy (field connection ''accessToken'')"
  obtain st s1 where r: "twitter_refresh config w now u connection s = (st, s1)"
    by (cases "twitter_refresh config w now u connection s")
  show ?thesis
  proof (cases st)
    case (Continue c')
    obtain m s2 where m: "twitter_media w options s1 = (m, s2)"
      by (cases "twitter_media w options s1")
    have 1: "prefix (calls s1) (calls s2)" using twitter_media_calls [of s1 w options] m by simp
    have 2: "prefix (calls s2) (calls (snd (twitter_publish config w now
                 (twitter_needsRefresh (tw_toNumber w) now connection) u c' s2)))"
      by (rule twitter_publish_calls)
    from 1 2 have "prefix (calls s1) (calls (snd (twitter_publish config w now
                 (twitter_needsRefresh (tw_toNumber w) now connection) u c' s2)))"
      by (rule prefix_order.trans)
    then show ?thesis
      using a r Continue m by (auto simp: twitter_sendPost_def split: prod.splits)
  qed (use a r in \<open>simp_all add: twitter_sendPost_def\<close>)
qed

lemma twitter_proactive:
  "truthy (field connection ''accessToken'') \<Longrightarrow>
   twitter_needsRefresh (tw_toNumber w) now connection \<Longrightarrow>
   prefix (calls s @ [CallRefreshToken])
          (calls (snd (twitter_sendPost config w now u connection options s)))"
  using twitter_sendPost_after_refresh [of connection config w now u s options]
    twitter_refresh_first [of w now connection config u s] by simp

lemma twitter_needsRefresh_iff:
  "twitter_needsRefresh toNumber now connection \<longleftrightarrow>
     \<not> truthy (field connection ''expiresAt'')
     \<or> jsLe (expiryTime toNumber (field connection ''expiresAt'')) (JsFinite (of_int now + 300000))"
  by (simp add: twitter_needsRefresh_def REFRESH_BUFFER_SECONDS_def Let_def)

lemma twitter_needsRefresh_date:
  "field connection ''expiresAt'' = JDate ms \<Longrightarrow>
   twitter_needsRefresh toNumber now connection \<longleftrightarrow> ms \<le> now + 300000"
proof -
  assume d: "field connection ''expiresAt'' = JDate ms"
  have "(of_int ms :: rat) \<le> of_int now + 300000 \<longleftrightarrow> ms \<le> now + 300000"
    using of_int_le_iff [where ?'a = rat, of ms "now + 300000"] by simp
  then show ?thesis by (simp add: twitter_needsRefresh_iff d)
qed

lemma noRefreshBetween_iff:
  "noRefreshBetween s s' \<longleftrightarrow>
     (\<exists>rest. calls s' = calls s @ rest \<and> CallRefreshToken \<notin> set rest)"
  by (auto simp: noRefreshBetween_def prefix_def)

lemma nrb_refl [simp]: "noRefreshBetween s s"
  by (simp add: noRefreshBetween_iff)

lemma nrb_writeBack [simp]: "noRefreshBetween s (writeBack t u p x) = noRefreshBetween s t"
  by (simp add: noRefreshBetween_iff)

lemma nrb_logCall: "c \<noteq> CallRefreshToken \<Longrightarrow> noRefreshBetween s t \<Longrightarrow> noRefreshBetween s (logCall c t)"
  by (auto simp: noRefreshBetween_iff)

lemma nrb_media [simp]: "noRefreshBetween s t \<Longrightarrow> noRefreshBetween s (logCall CallMedia t)"
  by (simp add: nrb_logCall)

lemma nrb_publish [simp]: "noRefreshBetween s t \<Longrightarrow> noRefreshBetween s (logCall CallPublish t)"
  by (simp add: nrb_logCall)

lemma nrb_prefix:
  "prefix (calls s @ [CallRefreshToken]) (calls t) \<Longrightarrow> noRefreshBetween t t' \<Longrightarrow>
   prefix (calls s @ [CallRefreshToken]) (calls t')"
  by (auto simp: noRefreshBetween_iff prefix_def)

lemma linkedin_publish_quiet:
  "linkedin_publish w now u s = (r, s') \<Longrightarrow> noRefreshBetween s0 s \<Longrightarrow> noRefreshBetween s0 s'"
  by (auto simp: linkedin_publish_def linkedin_catch_def Let_def split: sum.splits if_splits)

lemma linkedin_media_quiet:
  "noRefreshBetween s0 s \<Longrightarrow> noRefreshBetween s0 (linkedin_media options s)"
  by (auto simp: linkedin_media_def split: option.splits)

lemma linkedin_proactive:
  assumes "truthy (field connection ''accessToken'')"
    and "truthy (field connection ''linkedInUserId'')"
  shows "(isTokenExpired jwtDecode nowInSeconds (Some (asString (field connection ''accessToken''))) \<longrightarrow>
            prefix (calls s @ [CallRefreshToken])
              (calls (snd (linkedin_sendPost config jwtDecode w now nowInSeconds u connection options s))))
       \<and> (\<not> isTokenExpired jwtDecode nowInSeconds (Some (asString (field connection ''accessToken''))) \<longrightarrow>
            noRefreshBetween s
              (snd (linkedin_sendPost config jwtDecode w now nowInSeconds u connection options s)))"
proof (intro conjI impI)
  assume e: "isTokenExpired jwtDecode nowInSeconds (Some (asString (field connection ''accessToken'')))"
  obtain o1 s1 where r: "linkedin_refreshToken config (li_refresh w) now connection s = (o1, s1)"
    by (cases "linkedin_refreshToken config (li_refresh w) now connection s")
  have c1: "prefix (calls s @ [CallRefreshToken]) (calls s1)"
    using linkedin_refreshToken_calls [of config "li_refresh w" now connection s] r by simp
  obtain r2 s2 where p: "linkedin_publish w now u (linkedin_media options s1) = (r2, s2)"
    by (cases "linkedin_publish w now u (linkedin_media options s1)")
  have "noRefreshBetween s1 s2"
    using linkedin_publish_quiet [OF p] linkedin_media_quiet [of s1 s1 options] by simp
  then have "prefix (calls s @ [CallRefreshToken]) (calls s2)"
    using c1 nrb_prefix by blast
  then show "prefix (calls s @ [CallRefreshToken])
          (calls (snd (linkedin_sendPost config jwtDecode w now nowInSeconds u connection options s)))"
    using assms e r c1 p
    by (auto simp: linkedin_sendPost_def linkedin_refresh_def split: sum.splits)
next
  assume e: "\<not> isTokenExpired jwtDecode nowInSeconds (Some (asString (field connection ''accessToken'')))"
  obtain r2 s2 where p: "linkedin_publish w now u (linkedin_media options s) = (r2, s2)"
    by (cases "linkedin_publish w now u (linkedin_media options s)")
  have "noRefreshBetween s s2"
    using linkedin_publish_quiet [OF p] linkedin_media_quiet [of s s options] by simp
  then show "noRefreshBetween s
               (snd (linkedin_sendPost config jwtDecode w now nowInSeconds u connection options s))"
    using assms e p by (auto simp: linkedin_sendPost_def linkedin_refresh_def)
qed

lemma handleVideoUpload_quiet:
  "handleVideoUpload w n s = (r, s') \<Longrightarrow> noRefreshBetween s0 s \<Longrightarrow> noRefreshBetween s0 s'"
  by (auto simp: handleVideoUpload_def Let_def split: sum.splits option.splits prod.splits if_splits)

lemma handlePhotoUpload_quiet:
  "handlePhotoUpload w s = (r, s') \<Longrightarrow> noRefreshBetween s0 s \<Longrightarrow> noRefreshBetween s0 s'"
  by (auto simp: handlePhotoUpload_def Let_def split: sum.splits option.splits prod.splits if_splits)

lemma tiktok_video_quiet:
  "tiktok_video w url s = (r, s') \<Longrightarrow> noRefreshBetween s0 s \<Longrightarrow> noRefreshBetween s0 s'"
  by (auto simp: tiktok_video_def Let_def split: sum.splits prod.splits if_splits
           intro: handleVideoUpload_quiet)

lemma tiktok_media_quiet:
  "tiktok_media w url s = (r, s') \<Longrightarrow> noRefreshBetween s0 s \<Longrightarrow> noRefreshBetween s0 s'"
  by (auto simp: tiktok_media_def split: sum.splits prod.splits if_splits
           intro: tiktok_video_quiet handlePhotoUpload_quiet)

lemma tiktok_publish_quiet:
  "tiktok_publish w now u url s = (r, s') \<Longrightarrow> noRefreshBetween s0 s \<Longrightarrow> noRefreshBetween s0 s'"
  by (auto simp: tiktok_publish_def split: sum.splits prod.splits intro: tiktok_media_quiet)

lemma tiktok_proactive:
  assumes "truthy (field connection ''accessToken'')" and "givenUrl options = Some url"
  shows "(isTokenExpired jwtDecode nowInSeconds (Some (asString (field connection ''accessToken''))) \<longrightarrow>
            prefix (calls s @ [CallRefreshToken])
              (calls (snd (tiktok_sendPost config jwtDecode w now nowInSeconds u connection options s))))
       \<and> (\<not> isTokenExpired jwtDecode nowInSeconds (Some (asString (field connection ''accessToken''))) \<longrightarrow>
            noRefreshBetween s
              (snd (tiktok_sendPost config jwtDecode w now nowInSeconds u connection options s)))"
proof (intro conjI impI)
  assume e: "isTokenExpired jwtDecode nowInSeconds (Some (asString (field connection ''accessToken'')))"
  obtain o1 s1 where r: "tiktok_refreshToken config (tk_refresh w) now connection s = (o1, s1)"
    by (cases "tiktok_refreshToken config (tk_refresh w) now connection s")
  have c1: "prefix (calls s @ [CallRefreshToken]) (calls s1)"
    using tiktok_refreshToken_calls [of config "tk_refresh w" now connection s] r by simp
  obtain r2 s2 where p: "tiktok_publish w now u url s1 = (r2, s2)"
    by (cases "tiktok_publish w now u url s1")
  have "noRefreshBetween s1 s2" using tiktok_publish_quiet [OF p] by simp
  then have "prefix (calls s @ [CallRefreshToken]) (calls s2)"
    using c1 nrb_prefix by blast
  then show "prefix (calls s @ [CallRefreshToken])
          (calls (snd (tiktok_sendPost config jwtDecode w now nowInSeconds u connection options s)))"
    using assms e r c1 p
    by (auto simp: tiktok_sendPost_def tiktok_refresh_def split: sum.splits)
next
  assume e: "\<not> isTokenExpired jwtDecode nowInSeconds (Some (asString (field connection ''accessToken'')))"
  obtain r2 s2 where p: "tiktok_publish w now u url s = (r2, s2)"
    by (cases "tiktok_publish w now u url s")
  have "noRefreshBetween s s2" using tiktok_publish_quiet [OF p] by simp
  then show "noRefreshBetween s
               (snd (tiktok_sendPost config jwtDecode w now nowInSeconds u connection options s))"
    using assms e p by (auto simp: tiktok_sendPost_def tiktok_refresh_def)
qed

lemma threads_publish_quiet:
  "threads_publish w now u s = (r, s') \<Longrightarrow> noRefreshBetween s0 s \<Longrightarrow> noRefreshBetween s0 s'"
  by (auto simp: threads_publish_def threads_catch_def Let_def split: sum.splits if_splits)

lemma threads_never_refreshes:
  "noRefreshBetween s (snd (threads_sendPost w now u connection options s))"
  by (auto simp: threads_sendPost_def split: prod.splits intro: threads_publish_quiet)


text \<open>
  Claim C5, amended. The Twitter handler, given a connection with an access token whose
  \<open>expiresAt\<close> is absent (or otherwise falsy) or not later than now plus 300 seconds,
  asks the provider for a refresh before any other call; "not later" is the language's
  \<^verbatim>\<open><=\<close> on the number \<open>expiresAt\<close> stands for, which for a \<^verbatim>\<open>Date\<close> is the order of
  the clock readings. The LinkedIn and TikTok handlers do not read \<open>expiresAt\<close>: they
  ask for a refresh first exactly when \<open>isTokenExpired\<close> holds of the access token, and
  otherwise make no refresh call. The Threads handler never makes a refresh call.
\<close>

theorem proactive_refresh_policy:
  "(truthy (field connection ''accessToken'')
      \<and> twitter_needsRefresh (tw_toNumber tw) now connection \<longrightarrow>
      prefix (calls s @ [CallRefreshToken])
        (calls (snd (twitter_sendPost config tw now userId connection options s))))
   \<and> (twitter_needsRefresh (tw_toNumber tw) now connection \<longleftrightarrow>
        \<not> truthy (field connection ''expiresAt'')
        \<or> jsLe (expiryTime (tw_toNumber tw) (field connection ''expiresAt''))
             (JsFinite (of_int now + 300000)))
   \<and> (\<forall>ms. field connection ''expiresAt'' = JDate ms \<longrightarrow>
        (twitter_needsRefresh (tw_toNumber tw) now connection \<longleftrightarrow> ms \<le> now + 300000))
   \<and> (truthy (field connection ''accessToken'') \<and> truthy (field connection ''linkedInUserId'') \<longrightarrow>
        (isTokenExpired jwtDecode nowInSeconds (Some (asString (field connection ''accessToken''))) \<longrightarrow>
           prefix (calls s @ [CallRefreshToken])
             (calls (snd (linkedin_sendPost config jwtDecode li now nowInSeconds userId
                            connection options s))))
        \<and> (\<not> isTokenExpired jwtDecode nowInSeconds
                 (Some (asString (field connection ''accessToken''))) \<longrightarrow>
             noRefreshBetween s
               (snd (linkedin_sendPost config jwtDecode li now nowInSeconds userId
                       connection options s))))
   \<and> (truthy (field connection ''accessToken'') \<and> givenUrl options \<noteq> None \<longrightarrow>
        (isTokenExpired jwtDecode nowInSeconds (Some (asString (field connection ''accessToken''))) \<longrightarrow>
           prefix (calls s @ [CallRefreshToken])
             (calls (snd (tiktok_sendPost config jwtDecode tk now nowInSeconds userId
                            connection options s))))
        \<and> (\<not> isTokenExpired jwtDecode nowInSeconds
                 (Some (asString (field connection ''accessToken''))) \<longrightarrow>
             noRefreshBetween s
               (snd (tiktok_sendPost config jwtDecode tk now nowInSeconds userId
                       connection options s))))
   \<and> noRefreshBetween s (snd (threads_sendPost th now userId connection options s))"
proof (intro conjI)
  show "truthy (field connection ''accessToken'')
      \<and> twitter_needsRefresh (tw_toNumber tw) now connection \<longrightarrow>
      prefix (calls s @ [CallRefreshToken])
        (calls (snd (twitter_sendPost config tw now userId connection options s)))"
    using twitter_proactive by blast
  show "twitter_needsRefresh (tw_toNumber tw) now connection \<longleftrightarrow>
        \<not> truthy (field connection ''expiresAt'')
        \<or> jsLe (expiryTime (tw_toNumber tw) (field connection ''expiresAt''))
             (JsFinite (of_int now + 300000))"
    by (rule twitter_needsRefresh_iff)
  show "\<forall>ms. field connection ''expiresAt'' = JDate ms \<longrightarrow>
        (twitter_needsRefresh (tw_toNumber tw) now connection \<longleftrightarrow> ms \<le> now + 300000)"
    using twitter_needsRefresh_date by blast
  show "truthy (field connection ''accessToken'') \<and> truthy (field connection ''linkedInUserId'') \<longrightarrow>
        (isTokenExpired jwtDecode nowInSeconds (Some (asString (field connection ''accessToken''))) \<longrightarrow>
           prefix (calls s @ [CallRefreshToken])
             (calls (snd (linkedin_sendPost config jwtDecode li now nowInSeconds userId
                            connection options s))))
        \<and> (\<not> isTokenExpired jwtDecode nowInSeconds
                 (Some (asString (field connection ''accessToken''))) \<longrightarrow>
             noRefreshBetween s
               (snd (linkedin_sendPost config jwtDecode li now nowInSeconds userId
                       connection options s)))"
    using linkedin_proactive by blast
  show "truthy (field connection ''accessToken'') \<and> givenUrl options \<noteq> None \<longrightarrow>
        (isTokenExpired jwtDecode nowInSeconds (Some (asString (field connection ''accessToken''))) \<longrightarrow>
           prefix (calls s @ [CallRefreshToken])
             (calls (snd (tiktok_sendPost config jwtDecode tk now nowInSeconds userId
                            connection options s))))
        \<and> (\<not> isTokenExpired jwtDecode nowInSeconds
                 (Some (asString (field connection ''accessToken''))) \<longrightarrow>
             noRefreshBetween s
               (snd (tiktok_sendPost config jwtDecode tk now nowInSeconds userId
                       connection options s)))"
    using tiktok_proactive by blast
  show "noRefreshBetween s (snd (threads_sendPost th now userId connection options s))"
    by (rule threads_never_refreshes)
qed

lemma staleTwitter_needs:
  "truthy (field staleTwitter ''accessToken'')
   \<and> twitter_needsRefresh (tw_toNumber twitterWorld) 1000000 staleTwitter"
  by (simp add: staleTwitter_def field_def twitter_needsRefresh_def REFRESH_BUFFER_SECONDS_def)

theorem proactive_refresh_policy_witness:
  "truthy (field staleTwitter ''accessToken'')
   \<and> twitter_needsRefresh (tw_toNumber twitterWorld) 1000000 staleTwitter
   \<and> prefix (calls idle @ [CallRefreshToken])
        (calls (snd (twitter_sendPost demoConfig twitterWorld 1000000 ''alice'' staleTwitter
                       helloPost idle)))"
  using staleTwitter_needs [THEN conjunct1] staleTwitter_needs [THEN conjunct2]
    proactive_refresh_policy [THEN conjunct1, rule_format, OF staleTwitter_needs]
  by (intro conjI)

text \<open>
  The claim as stated fails for Threads, an OAuth2 platform: with \<open>expiresAt\<close> at the
  epoch and the clock at 1000 seconds, the handler makes its two publish calls and no
  refresh.
\<close>

theorem proactive_refresh_policy_counterexample:
  "field staleThreads ''expiresAt'' = JDate 0
   \<and> (0 :: int) \<le> 1000000
   \<and> calls (snd (threads_sendPost threadsWorld 1000000 ''alice'' staleThreads helloPost idle))
       = [CallPublish, CallPublish]"
  by (simp add: staleThreads_def field_def threads_sendPost_def threads_publish_def
        threadsWorld_def created_def idle_def Let_def logCall_def writeBack_def)

section \<open>Write-backs of the connection validity\<close>

lemma db_logCall [simp]: "db (logCall c s) = db s"
  by (simp add: logCall_def)

lemma db_writeBack [simp]: "db (writeBack s u p upd) = updateConnection (db s) u p upd"
  by (simp add: writeBack_def)

lemma stored_update [simp]:
  "(getConnection (updateConnection d u' p' upd) u p = None) = (getConnection d u p = None)"
  by (auto simp: getConnection_def updateConnection_def split: option.splits)

lemma stored_update_ex [simp]:
  "(\<exists>y. getConnection (updateConnection d u' p' upd) u p = Some y)
     = (\<exists>y. getConnection d u p = Some y)"
  using stored_update [of d u' p' upd u p] by (simp only: not_None_eq [symmetric])

lemma flag_update:
  "getConnection d u p \<noteq> None \<Longrightarrow> upd k = Some v \<Longrightarrow>
   storedFlag (updateConnection d u p upd) u p k = Some v"
  by (auto simp: storedFlag_def getConnection_def updateConnection_def field_def map_add_def
           split: option.splits)

lemma invalid_update [simp]:
  "getConnection d u p \<noteq> None \<Longrightarrow> flaggedInvalid (updateConnection d u p markInvalid) u p"
  by (simp add: flaggedInvalid_def flag_update markInvalid_def)

lemma valid_update [simp]:
  "getConnection d u p \<noteq> None \<Longrightarrow> flaggedValid now (updateConnection d u p (markValid now)) u p"
  by (simp add: flaggedValid_def flag_update markValid_def)

lemma valid_update_gen:
  "getConnection d u p \<noteq> None \<Longrightarrow> upd ''isValid'' = Some (JBool True) \<Longrightarrow>
   upd ''needsReconnection'' = Some (JBool False) \<Longrightarrow> upd ''lastValidated'' = Some (JDate now) \<Longrightarrow>
   flaggedValid now (updateConnection d u p upd) u p"
  by (simp add: flaggedValid_def flag_update)

lemma twitter_refreshToken_stored:
  "twitter_refreshToken config net now c s = (x, s1) \<Longrightarrow>
   (getConnection (db s1) u p = None) = (getConnection (db s) u p = None)"
  by (auto simp: twitter_refreshToken_def Let_def split: sum.splits if_splits)

lemma twitter_retry_flags:
  "twitter_retry config w now u c s = (r, s') \<Longrightarrow> getConnection (db s) u Twitter \<noteq> None \<Longrightarrow>
   (if success r then flaggedValid now (db s') u Twitter else flaggedInvalid (db s') u Twitter)"
proof -
  assume e: "twitter_retry config w now u c s = (r, s')"
    and st: "getConnection (db s) u Twitter \<noteq> None"
  obtain x s1 where t: "twitter_refreshToken config (tw_refresh2 w) now c s = (x, s1)"
    by (cases "twitter_refreshToken config (tw_refresh2 w) now c s")
  have "getConnection (db s1) u Twitter \<noteq> None"
    using twitter_refreshToken_stored [OF t] st by simp
  then show ?thesis
    using e t
    by (auto simp: twitter_retry_def tweetResult_def succeeded_def failure_def Let_def
             split: sum.splits option.splits)
qed

lemma cannotRead_not_auth [simp]: "\<not> isAuthErrorTwitter (cannotRead member)"
  by (simp add: isAuthErrorTwitter_def cannotRead_def Error_def)

lemma twitter_publish_flags:
  assumes "twitter_publish config w now nr u c s = (r, s')"
    and "getConnection (db s) u Twitter \<noteq> None"
  shows "(success r \<longrightarrow> flaggedValid now (db s') u Twitter)
       \<and> (\<forall>e. tw_tweet w = Inl e \<and> isAuthErrorTwitter e \<and> \<not> success r \<longrightarrow>
             flaggedInvalid (db s') u Twitter)
       \<and> (\<forall>e. tw_tweet w = Inl e \<and> \<not> isAuthErrorTwitter e \<longrightarrow> \<not> success r \<and> db s' = db s)"
proof (cases "tw_tweet w")
  case (Inr data)
  then show ?thesis
    using assms
    by (auto simp: twitter_publish_def twitter_catch_def tweetResult_def succeeded_def
             failure_def Let_def split: option.splits)
next
  case (Inl e)
  show ?thesis
  proof (cases "isAuthErrorTwitter e \<and> \<not> nr")
    case True
    then have "twitter_retry config w now u c (logCall CallPublish s) = (r, s')"
      using assms(1) Inl by (simp add: twitter_publish_def twitter_catch_def Let_def)
    from twitter_retry_flags [OF this] assms(2) True Inl show ?thesis
      by (auto split: if_splits)
  next
    case False
    then show ?thesis
      using assms Inl
      by (auto simp: twitter_publish_def twitter_catch_def failure_def Let_def split: if_splits)
  qed
qed

lemma linkedin_publish_flags:
  "linkedin_publish w now u s = (r, s') \<Longrightarrow> getConnection (db s) u LinkedIn \<noteq> None \<Longrightarrow>
   (if success r then flaggedValid now (db s') u LinkedIn else flaggedInvalid (db s') u LinkedIn)"
  by (auto simp: linkedin_publish_def linkedin_catch_def succeeded_def failure_def Let_def
           split: sum.splits if_splits)

lemma threads_publish_flags:
  "threads_publish w now u s = (r, s') \<Longrightarrow> getConnection (db s) u Threads \<noteq> None \<Longrightarrow>
   (if success r then flaggedValid now (db s') u Threads else flaggedInvalid (db s') u Threads)"
  by (auto simp: threads_publish_def threads_catch_def succeeded_def failure_def Let_def
           split: sum.splits if_splits)

lemma discord_publish_flags:
  "discord_publish net now u s = (r, s') \<Longrightarrow> getConnection (db s) u Discord \<noteq> None \<Longrightarrow>
   (if success r then flaggedValid now (db s') u Discord else flaggedInvalid (db s') u Discord)"
  by (auto simp: discord_publish_def discord_catch_def succeeded_def failure_def Let_def
           split: sum.splits if_splits)

lemma tiktok_media_db: "tiktok_media w url s = (x, s') \<Longrightarrow> db s' = db s"
  by (auto simp: tiktok_media_def tiktok_video_def handleVideoUpload_def handlePhotoUpload_def
             Let_def
           split: sum.splits if_splits prod.splits option.splits)

lemma tiktok_publish_flags:
  "tiktok_publish w now u url s = (r, s') \<Longrightarrow> getConnection (db s) u TikTok \<noteq> None \<Longrightarrow>
   (if success r then flaggedValid now (db s') u TikTok else flaggedInvalid (db s') u TikTok)"
  by (auto simp: tiktok_publish_def succeeded_def failure_def
           split: sum.splits prod.splits dest!: tiktok_media_db)

lemma devto_publish_flags:
  assumes "devto_publish net now u s = (r, s')" and "getConnection (db s) u Devto \<noteq> None"
  shows "(success r \<longrightarrow> flaggedValid now (db s') u Devto)
       \<and> (\<not> success r \<longrightarrow>
            (if \<exists>response errorBody. net = Inr response \<and> \<not> ok response
                  \<and> bodyText response = Inr errorBody
                  \<and> \<not> devto_isAuthError (httpStatus response)
             then db s' = db s else flaggedInvalid (db s') u Devto))"
  using assms
  by (auto simp: devto_publish_def devto_catch_def succeeded_def failure_def Let_def
           split: sum.splits if_splits option.splits)

lemma bluesky_reactive_flags:
  "bluesky_reactive w now u s = (x, s') \<Longrightarrow> getConnection (db s) u Bluesky \<noteq> None \<Longrightarrow>
   getConnection (db s') u Bluesky \<noteq> None
   \<and> (x \<noteq> None \<longrightarrow> flaggedValid now (db s') u Bluesky)"
  by (auto simp: bluesky_reactive_def Let_def valid_update_gen markValid_def
           split: sum.splits if_splits option.splits prod.splits)

lemma bluesky_posted_success [simp]: "success (bluesky_posted x)"
  by (simp add: bluesky_posted_def succeeded_def)

lemma bluesky_reactive_success: "bluesky_reactive w now u s = (Some r, s') \<Longrightarrow> success r"
  by (auto simp: bluesky_reactive_def Let_def split: sum.splits if_splits option.splits prod.splits)

lemma bluesky_catch_flags:
  assumes "bluesky_catch w now proactive u apiError s = (r, s')"
    and "getConnection (db s) u Bluesky \<noteq> None"
  shows "(success r \<longrightarrow> \<not> proactive \<and> flaggedValid now (db s') u Bluesky)
       \<and> (\<not> success r \<longrightarrow>
            storedFlag (db s') u Bluesky ''isValid'' = Some (JBool False)
            \<and> storedFlag (db s') u Bluesky ''needsReconnection''
                 = Some (JBool (isAuthError Bluesky apiError)))"
proof (cases "\<not> proactive \<and> isAuthError Bluesky apiError")
  case True
  obtain x s1 where re: "bluesky_reactive w now u s = (x, s1)"
    by (cases "bluesky_reactive w now u s")
  note f = bluesky_reactive_flags [OF re assms(2)]
  show ?thesis
  proof (cases x)
    case None
    then show ?thesis
      using assms(1) True re f
      by (auto simp: bluesky_catch_def failure_def flag_update)
  next
    case (Some r')
    then show ?thesis
      using assms(1) True re f bluesky_reactive_success [of w now u s r' s1]
      by (auto simp: bluesky_catch_def)
  qed
next
  case False
  then show ?thesis
    using assms by (auto simp: bluesky_catch_def failure_def flag_update split: if_splits)
qed

lemma bluesky_publish_flags:
  assumes "bluesky_publish w now proactive u s = (r, s')"
    and "getConnection (db s) u Bluesky \<noteq> None"
  shows "(success r \<and> \<not> proactive \<longrightarrow> flaggedValid now (db s') u Bluesky)
       \<and> (success r \<and> proactive \<longrightarrow> db s' = db s)
       \<and> (\<not> success r \<longrightarrow> storedFlag (db s') u Bluesky ''isValid'' = Some (JBool False))
       \<and> (\<forall>apiError. bs_post w = Inl apiError \<and> \<not> success r \<longrightarrow>
             storedFlag (db s') u Bluesky ''needsReconnection''
               = Some (JBool (isAuthError Bluesky apiError)))"
proof (cases "bs_post w")
  case (Inl apiError)
  then have c: "bluesky_catch w now proactive u apiError (logCall CallPublish s) = (r, s')"
    using assms(1) by (simp add: bluesky_publish_def Let_def)
  have st: "getConnection (db (logCall CallPublish s)) u Bluesky \<noteq> None"
    using assms(2) by simp
  from bluesky_catch_flags [OF c st] Inl show ?thesis by auto
next
  case (Inr res)
  show ?thesis
  proof (cases res)
    case (Some x)
    then show ?thesis
      using assms Inr by (auto simp: bluesky_publish_def Let_def split: if_splits)
  next
    case None
    let ?s1 = "if \<not> proactive then writeBack (logCall CallPublish s) u Bluesky (markValid now)
               else logCall CallPublish s"
    have c: "bluesky_catch w now proactive u (cannotRead ''uri'') ?s1 = (r, s')"
      using assms(1) Inr None by (simp add: bluesky_publish_def Let_def)
    have st: "getConnection (db ?s1) u Bluesky \<noteq> None" using assms(2) by simp
    from bluesky_catch_flags [OF c st] Inr show ?thesis by auto
  qed
qed


lemma serverError_not_auth: "\<not> isAuthError LinkedIn serverError"
  by code_simp

lemma showInt_500: "showInt 500 = ''500''"
  by code_simp

lemma good_not_expired: "\<not> isTokenExpired demoJwt 1 (Some ''good'')"
  by (simp add: isTokenExpired_def demoJwt_def field_def)

lemma linkedin_500:
  "linkedin_sendPost demoConfig demoJwt linkedinServerError 1000 1 ''alice'' aliceLinkedin
     helloPost linkedinSys
   = (Inr (failure LinkedIn ''LinkedIn API Error: 500 - Internal Server Error - oops''),
      writeBack (logCall CallPublish linkedinSys) ''alice'' LinkedIn markInvalid)"
  using good_not_expired
  by (simp add: linkedin_sendPost_def linkedin_refresh_def linkedin_publish_def
        linkedin_media_def givenUrl_def helloPost_def linkedinServerError_def
        aliceLinkedin_def field_def showInt_500 Let_def)

lemma alice_stored: "getConnection (db linkedinSys) ''alice'' LinkedIn = Some aliceLinkedin"
  by (simp add: getConnection_def linkedinSys_def getKey_def)

lemma flags_before:
  "storedFlag (db linkedinSys) ''alice'' LinkedIn ''isValid'' = Some (JBool True)
   \<and> storedFlag (db linkedinSys) ''alice'' LinkedIn ''needsReconnection'' = Some (JBool False)"
  by (simp add: storedFlag_def alice_stored aliceLinkedin_def field_def)

lemma flags_after:
  "flaggedInvalid
     (db (writeBack (logCall CallPublish linkedinSys) ''alice'' LinkedIn markInvalid))
     ''alice'' LinkedIn"
  by (simp add: flaggedInvalid_def storedFlag_def writeBack_def logCall_def getConnection_def
        updateConnection_def linkedinSys_def getKey_def markInvalid_def field_def map_add_def)

text \<open>
  Claim C4, at the failing input. The LinkedIn handler posts for alice, whose stored
  connection is valid, and the platform answers 500 Internal Server Error, which no
  classifier of the repository takes for an authentication error. \<open>sendPost\<close> returns
  the failure and the stored connection is now \<open>isValid = false\<close>,
  \<open>needsReconnection = true\<close>.
\<close>

theorem linkedin_server_error_invalidates:
  "storedFlag (db linkedinSys) ''alice'' LinkedIn ''isValid'' = Some (JBool True)
   \<and> storedFlag (db linkedinSys) ''alice'' LinkedIn ''needsReconnection'' = Some (JBool False)
   \<and> \<not> isAuthError LinkedIn serverError
   \<and> \<not> devto_isAuthError 500
   \<and> fst (linkedin_sendPost demoConfig demoJwt linkedinServerError 1000 1 ''alice'' aliceLinkedin
            helloPost linkedinSys)
       = Inr (failure LinkedIn ''LinkedIn API Error: 500 - Internal Server Error - oops'')
   \<and> flaggedInvalid
        (db (snd (linkedin_sendPost demoConfig demoJwt linkedinServerError 1000 1 ''alice''
                    aliceLinkedin helloPost linkedinSys)))
        ''alice'' LinkedIn"
  using flags_before serverError_not_auth flags_after
  by (simp add: linkedin_500 devto_isAuthError_def)

section \<open>The shape of results\<close>

lemma orElse_nonempty [simp]: "b \<noteq> [] \<Longrightarrow> orElse a b \<noteq> []"
  by (simp add: orElse_def)

lemma shape_twitter [simp]: "successShape Twitter [''id'' \<mapsto> v, ''tweetId'' \<mapsto> v]"
  unfolding successShape.simps by ((rule exI)+, rule refl)

lemma shape_linkedin_id [simp]: "x \<noteq> [] \<Longrightarrow> successShape LinkedIn [''id'' \<mapsto> JStr x]"
  unfolding successShape.simps by (rule exI [of _ "JStr x"]) simp

lemma shape_linkedin_undefined [simp]: "successShape LinkedIn [''id'' \<mapsto> JUndefined]"
  unfolding successShape.simps by (rule exI [of _ JUndefined]) simp

lemma shape_bluesky [simp]: "successShape Bluesky [''uri'' \<mapsto> u, ''cid'' \<mapsto> c]"
  unfolding successShape.simps by ((rule exI)+, rule refl)

lemma shape_tiktok [simp]: "truthy v \<Longrightarrow> successShape TikTok [''publish_id'' \<mapsto> v]"
  unfolding successShape.simps by (rule exI [of _ v]) simp

lemma shape_devto [simp]:
  "successShape Devto [''id'' \<mapsto> JStr x, ''url'' \<mapsto> u, ''title'' \<mapsto> t]"
  unfolding successShape.simps by ((rule exI)+, rule refl)

lemma shape_threads [simp]: "successShape Threads [''id'' \<mapsto> v]"
  unfolding successShape.simps by ((rule exI)+, rule refl)

lemma shape_discord [simp]: "successShape Discord Map.empty"
  by (simp add: successShape.simps)

lemma shape_github [simp]: "\<not> successShape GitHub obj"
  by (simp add: successShape.simps)

lemma produced_failure [simp]: "producedResult p (failure q msg) = (q = p \<and> msg \<noteq> [])"
  using platform_name_inj [of q p] by (auto simp: producedResult_def failure_def)

lemma produced_succeeded [simp]:
  "producedResult p (succeeded q obj) = (q = p \<and> successShape p obj)"
  using platform_name_inj [of q p] by (auto simp: producedResult_def succeeded_def)

text \<open>
  What \<open>producedResult\<close> excludes: an empty publish id, a webhook result that is not
  empty, a successful result without the \<open>id\<close> field, a successful result with an error.
\<close>

lemma producedResult_excludes:
  "\<not> producedResult TikTok (succeeded TikTok [''publish_id'' \<mapsto> JStr []])"
  "\<not> producedResult Discord (succeeded Discord [''id'' \<mapsto> v])"
  "\<not> producedResult LinkedIn (succeeded LinkedIn Map.empty)"
  "\<not> producedResult Twitter ((tweetResult v) \<lparr> error := Some msg \<rparr>)"
proof -
  show "\<not> producedResult TikTok (succeeded TikTok [''publish_id'' \<mapsto> JStr []])"
    by (auto simp: successShape.simps(4) dest: map_upd_eqD1)
  show "\<not> producedResult Discord (succeeded Discord [''id'' \<mapsto> v])"
    by (simp add: successShape.simps(7))
  show "\<not> producedResult LinkedIn (succeeded LinkedIn Map.empty)"
    by (auto simp: successShape.simps(2) dest!: fun_cong [of _ _ "''id''"])
  show "\<not> producedResult Twitter ((tweetResult v) \<lparr> error := Some msg \<rparr>)"
    by (simp add: producedResult_def tweetResult_def succeeded_def)
qed















lemma bluesky_posted_result [simp]: "producedResult Bluesky (bluesky_posted x)"
  by (simp add: bluesky_posted_def)
















end
